theory Spec2Isabelle
  imports Main
begin

section \<open>Data model (backend/internal/models)\<close>

text \<open>
  A UUID is modelled by its 128-bit value. \<open>uuid.UUID.String()\<close> prints a fixed-width
  lower-case hexadecimal form, so the string order used by \<open>SettleTask\<close> to sort the
  account ids is the numeric order of the values.
\<close>

type_synonym uuid = nat

definition SystemPlatformAccountID :: uuid where
  "SystemPlatformAccountID = 1"

definition uuid_Nil :: uuid where
  "uuid_Nil = 0"

text \<open>
  Go's \<open>int\<close> is a 64-bit two's complement integer: \<open>+\<close>, \<open>-\<close> and \<open>*\<close> wrap around,
  \<open>/\<close> truncates towards zero. Values are kept as \<open>int\<close> and the wrap-around is
  written out by \<open>go_int\<close>.
\<close>

definition go_int :: "int \<Rightarrow> int" where
  "go_int x = (x + 9223372036854775808) mod 18446744073709551616 - 9223372036854775808"

definition go_quo :: "int \<Rightarrow> int \<Rightarrow> int" where
  "go_quo a b = go_int (sgn a * sgn b * (\<bar>a\<bar> div \<bar>b\<bar>))"

definition MaxInt64 :: int where
  "MaxInt64 = 9223372036854775807"

text \<open>models.Account: the columns read or written by the escrow and matching code.\<close>

record Account =
  acID :: uuid
  CreditBalance :: int
  IsSystemAccount :: bool

text \<open>
  models.CreditLedger. The \<open>ID\<close> (a fresh random UUID) and \<open>CreatedAt\<close> (set by the
  database) are not read by any code modelled here and are left out.
\<close>

record CreditLedger =
  leAccountID :: uuid
  leTaskID :: "uuid option"
  EntryType :: string
  Amount :: int
  BalanceAfter :: "int option"

definition CreditEntryEscrowLock :: string where "CreditEntryEscrowLock = ''escrow_lock''"
definition CreditEntryEscrowRelease :: string where "CreditEntryEscrowRelease = ''escrow_release''"
definition CreditEntryTaskEarning :: string where "CreditEntryTaskEarning = ''task_earning''"
definition CreditEntryPlatformFee :: string where "CreditEntryPlatformFee = ''platform_fee''"
definition CreditEntryRefund :: string where "CreditEntryRefund = ''refund''"

text \<open>
  The \<open>capabilities_offered\<close> JSONB column of an agent, as far as the code looks at it:
  SQL NULL; a JSON object whose members decode into \<open>struct{Price int}\<close> (the list
  pairs each key with the decoded price, 0 when the member has no \<open>price\<close>); or any
  other JSON document, for which \<open>json.Unmarshal\<close> into the price map fails and of which
  only the strings matched by the SQL operator \<open>?\<close> (top-level keys or string elements)
  are kept.
\<close>

datatype jsonb = JNull | JObject "(string \<times> int) list" | JOther "string list"

text \<open>models.Agent.\<close>

record Agent =
  agID :: uuid
  agAccountID :: uuid
  Role :: string
  EndpointURL :: string
  CapabilitiesOffered :: jsonb
  Availability :: string
  AvgResponseTimeMs :: "int option"

definition AgentRoleWorker :: string where "AgentRoleWorker = ''worker''"
definition AgentRoleBoth :: string where "AgentRoleBoth = ''both''"
definition AgentAvailabilityOnline :: string where "AgentAvailabilityOnline = ''online''"

text \<open>
  A \<open>json.RawMessage\<close> payload is modelled by what \<open>json.Unmarshal\<close> into
  \<open>struct{Depth string}\<close> makes of it: an error, or the value of the \<open>depth\<close> member
  (the empty string when it is absent). Nothing else of a payload is read by the code.
\<close>

datatype RawMessage = NotDecodable | Decoded string

text \<open>models.Task. Times are nanoseconds since the epoch.\<close>

record Task =
  tID :: uuid
  RequesterAgentID :: uuid
  WorkerAgentID :: "uuid option"
  CapabilityRequired :: string
  InputPayload :: RawMessage
  OutputPayload :: RawMessage
  OutputStatus :: string
  Status :: string
  Budget :: int
  ActualCost :: "int option"
  PlatformFee :: "int option"
  Deadline :: "int option"
  RetryCount :: int
  RoutingPreference :: string

definition TaskStatusMatching :: string where "TaskStatusMatching = ''matching''"
definition TaskStatusDispatched :: string where "TaskStatusDispatched = ''dispatched''"
definition TaskStatusInProgress :: string where "TaskStatusInProgress = ''in_progress''"
definition TaskStatusCompleted :: string where "TaskStatusCompleted = ''completed''"
definition TaskStatusFailed :: string where "TaskStatusFailed = ''failed''"

definition TaskOutputStatusSuccess :: string where "TaskOutputStatusSuccess = ''success''"
definition TaskOutputStatusPartial :: string where "TaskOutputStatusPartial = ''partial''"
definition TaskOutputStatusError :: string where "TaskOutputStatusError = ''error''"

definition RoutingFastest :: string where "RoutingFastest = ''fastest''"
definition RoutingCheapest :: string where "RoutingCheapest = ''cheapest''"
definition RoutingAuto :: string where "RoutingAuto = ''auto''"

section \<open>The store (backend/internal/repository)\<close>

text \<open>
  The state of the system: the four tables the task lifecycle uses, each a list of rows,
  together with the two effects of the dispatcher that leave the process: the HTTP
  requests sent to worker endpoints (\<open>http_posts\<close>: endpoint and task id, oldest first)
  and the deadline watchers started (\<open>monitors\<close>: task id, worker agent id, deadline).

  The SQL statements are modelled on these lists. Constraint checks of the database
  (foreign keys, column ranges) and connection failures are not part of the model: a
  statement fails only where it finds no row.
\<close>

record world =
  accounts :: "Account list"
  credit_ledger :: "CreditLedger list"
  agents :: "Agent list"
  tasks :: "Task list"
  http_posts :: "(string \<times> uuid) list"
  monitors :: "(uuid \<times> uuid \<times> int) list"

datatype error =
  ErrInsufficientFunds
  | ErrNoRows
  | ErrUnknownCapability
  | ErrResearchInput
  | ErrCreateRequest

text \<open>AccountRepo.GetByIDForUpdate: \<open>SELECT ... FROM accounts WHERE id = $1 FOR UPDATE\<close>.\<close>

definition GetByIDForUpdate :: "world \<Rightarrow> uuid \<Rightarrow> error + Account" where
  "GetByIDForUpdate w aid =
     (case filter (\<lambda>a. acID a = aid) (accounts w) of
        [] \<Rightarrow> Inl ErrNoRows
      | a # _ \<Rightarrow> Inr a)"

text \<open>
  AccountRepo.DeductCredits:
  \<open>UPDATE accounts SET credit_balance = credit_balance - $1
   WHERE id = $2 AND credit_balance >= $1 RETURNING credit_balance\<close>.
\<close>

definition DeductCredits :: "world \<Rightarrow> uuid \<Rightarrow> int \<Rightarrow> error + (int \<times> world)" where
  "DeductCredits w aid amount =
     (let hit = (\<lambda>a. acID a = aid \<and> amount \<le> CreditBalance a) in
      case filter hit (accounts w) of
        [] \<Rightarrow> Inl ErrNoRows
      | a # _ \<Rightarrow>
          Inr (CreditBalance a - amount,
               w\<lparr>accounts :=
                    map (\<lambda>a. if hit a then a\<lparr>CreditBalance := CreditBalance a - amount\<rparr> else a)
                      (accounts w)\<rparr>))"

text \<open>
  AccountRepo.AddCredits:
  \<open>UPDATE accounts SET credit_balance = credit_balance + $1 WHERE id = $2
   RETURNING credit_balance\<close>.
\<close>

definition AddCredits :: "world \<Rightarrow> uuid \<Rightarrow> int \<Rightarrow> error + (int \<times> world)" where
  "AddCredits w aid amount =
     (case filter (\<lambda>a. acID a = aid) (accounts w) of
        [] \<Rightarrow> Inl ErrNoRows
      | a # _ \<Rightarrow>
          Inr (CreditBalance a + amount,
               w\<lparr>accounts :=
                    map (\<lambda>a. if acID a = aid then a\<lparr>CreditBalance := CreditBalance a + amount\<rparr> else a)
                      (accounts w)\<rparr>))"

text \<open>CreditRepo.CreateTx: \<open>INSERT INTO credit_ledger ...\<close>; the ledger is append-only.\<close>

definition CreateTx :: "world \<Rightarrow> CreditLedger \<Rightarrow> world" where
  "CreateTx w c = w\<lparr>credit_ledger := credit_ledger w @ [c]\<rparr>"

section \<open>Escrow (backend/internal/services/escrow.go)\<close>

text \<open>
  Each operation returns the store as it leaves it and the error it returns
  (\<open>None\<close> for \<open>nil\<close>). The caller owns the transaction.
\<close>

definition LockCredits :: "world \<Rightarrow> uuid \<Rightarrow> uuid \<Rightarrow> int \<Rightarrow> world \<times> error option" where
  "LockCredits w accountID taskID amount =
     (case GetByIDForUpdate w accountID of
        Inl e \<Rightarrow> (w, Some e)
      | Inr acc \<Rightarrow>
          if CreditBalance acc < amount then (w, Some ErrInsufficientFunds)
          else
            (case DeductCredits w accountID amount of
               Inl e \<Rightarrow> (w, Some e)
             | Inr (newBalance, w1) \<Rightarrow>
                 (CreateTx w1
                    \<lparr>leAccountID = accountID, leTaskID = Some taskID,
                     EntryType = CreditEntryEscrowLock, Amount = amount,
                     BalanceAfter = Some newBalance\<rparr>,
                  None)))"

text \<open>The loop of \<open>SettleTask\<close> that locks the affected accounts in order.\<close>

fun lockAll :: "world \<Rightarrow> uuid list \<Rightarrow> error option" where
  "lockAll w [] = None"
| "lockAll w (aid # ids) =
     (case GetByIDForUpdate w aid of
        Inl e \<Rightarrow> Some e
      | Inr _ \<Rightarrow> lockAll w ids)"

definition SettleTask ::
  "world \<Rightarrow> uuid \<Rightarrow> uuid \<Rightarrow> uuid \<Rightarrow> int \<Rightarrow> int \<Rightarrow> world \<times> error option" where
  "SettleTask w taskID requesterID workerID budget actualCost =
     (let platformFee = go_quo (go_int (actualCost * 10)) 100;
          workerEarning = go_int (actualCost - platformFee);
          remainder0 = go_int (budget - actualCost);
          remainder = (if remainder0 < 0 then 0 else remainder0);
          ids = sort [requesterID, workerID, SystemPlatformAccountID]
      in
      case lockAll w ids of
        Some e \<Rightarrow> (w, Some e)
      | None \<Rightarrow>
          (case AddCredits w workerID workerEarning of
             Inl e \<Rightarrow> (w, Some e)
           | Inr (newWorker, w1) \<Rightarrow>
               let w2 = CreateTx w1
                          \<lparr>leAccountID = workerID, leTaskID = Some taskID,
                           EntryType = CreditEntryTaskEarning, Amount = workerEarning,
                           BalanceAfter = Some newWorker\<rparr>
               in
               (case AddCredits w2 SystemPlatformAccountID platformFee of
                  Inl e \<Rightarrow> (w2, Some e)
                | Inr (newPlatform, w3) \<Rightarrow>
                    let w4 = CreateTx w3
                               \<lparr>leAccountID = SystemPlatformAccountID, leTaskID = Some taskID,
                                EntryType = CreditEntryPlatformFee, Amount = platformFee,
                                BalanceAfter = Some newPlatform\<rparr>
                    in
                    if 0 < remainder then
                      (case AddCredits w4 requesterID remainder of
                         Inl e \<Rightarrow> (w4, Some e)
                       | Inr (newReq, w5) \<Rightarrow>
                           (CreateTx w5
                              \<lparr>leAccountID = requesterID, leTaskID = Some taskID,
                               EntryType = CreditEntryEscrowRelease, Amount = remainder,
                               BalanceAfter = Some newReq\<rparr>,
                            None))
                    else (w4, None))))"

definition SettleError :: "world \<Rightarrow> uuid \<Rightarrow> uuid \<Rightarrow> int \<Rightarrow> world \<times> error option" where
  "SettleError w taskID requesterID budget =
     (if budget \<le> 0 then (w, None)
      else
        (case GetByIDForUpdate w requesterID of
           Inl e \<Rightarrow> (w, Some e)
         | Inr _ \<Rightarrow>
             (case AddCredits w requesterID budget of
                Inl e \<Rightarrow> (w, Some e)
              | Inr (newBalance, w1) \<Rightarrow>
                  (CreateTx w1
                     \<lparr>leAccountID = requesterID, leTaskID = Some taskID,
                      EntryType = CreditEntryRefund, Amount = budget,
                      BalanceAfter = Some newBalance\<rparr>,
                   None))))"

definition RefundFailed :: "world \<Rightarrow> uuid \<Rightarrow> uuid \<Rightarrow> int \<Rightarrow> world \<times> error option" where
  "RefundFailed w taskID requesterID budget = SettleError w taskID requesterID budget"

text \<open>
  The quantities of the ledger tests (escrow\_test.go): the signed amount of an entry
  (\<open>signedAmount\<close>: a lock deducts, everything else adds), the sum of all balances and
  the signed sum of the ledger.
\<close>

definition signedAmount :: "CreditLedger \<Rightarrow> int" where
  "signedAmount e = (if EntryType e = CreditEntryEscrowLock then - Amount e else Amount e)"

definition total_balance :: "world \<Rightarrow> int" where
  "total_balance w = sum_list (map CreditBalance (accounts w))"

definition ledger_sum :: "world \<Rightarrow> int" where
  "ledger_sum w = sum_list (map signedAmount (credit_ledger w))"

text \<open>The balance of an account as a reader finds it (0 for a missing account).\<close>

definition balance_of :: "world \<Rightarrow> uuid \<Rightarrow> int" where
  "balance_of w aid = (case GetByIDForUpdate w aid of Inl _ \<Rightarrow> 0 | Inr a \<Rightarrow> CreditBalance a)"

section \<open>Task and agent rows (repository/task\_repo.go, agent repository)\<close>

text \<open>
  TaskRepo.GetByID: \<open>SELECT ... FROM tasks WHERE id = $1\<close>. The \<open>tasks\<close> table has no
  column for the routing preference, so the task read back carries Go's zero value.
\<close>

definition TaskRepo_GetByID :: "world \<Rightarrow> uuid \<Rightarrow> error + Task" where
  "TaskRepo_GetByID w taskID =
     (case filter (\<lambda>t. tID t = taskID) (tasks w) of
        [] \<Rightarrow> Inl ErrNoRows
      | t # _ \<Rightarrow> Inr (t\<lparr>RoutingPreference := []\<rparr>))"

text \<open>TaskRepo.Update: \<open>UPDATE tasks SET ... WHERE id = $1\<close> (no error when no row matches).\<close>

definition TaskRepo_Update :: "world \<Rightarrow> Task \<Rightarrow> world" where
  "TaskRepo_Update w t =
     w\<lparr>tasks := map (\<lambda>r. if tID r = tID t then t\<lparr>RoutingPreference := []\<rparr> else r) (tasks w)\<rparr>"

text \<open>TaskRepo.ListByRequesterAgentID: \<open>SELECT ... FROM tasks WHERE requester_agent_id = $1\<close>.\<close>

definition ListByRequesterAgentID :: "world \<Rightarrow> uuid \<Rightarrow> Task list" where
  "ListByRequesterAgentID w requesterAgentID =
     map (\<lambda>t. t\<lparr>RoutingPreference := []\<rparr>)
       (filter (\<lambda>t. RequesterAgentID t = requesterAgentID) (tasks w))"

text \<open>AgentRepo.GetByID: \<open>SELECT ... FROM agents WHERE id = $1\<close>.\<close>

definition AgentRepo_GetByID :: "world \<Rightarrow> uuid \<Rightarrow> error + Agent" where
  "AgentRepo_GetByID w agentID =
     (case filter (\<lambda>a. agID a = agentID) (agents w) of
        [] \<Rightarrow> Inl ErrNoRows
      | a # _ \<Rightarrow> Inr a)"

text \<open>The JSONB operator \<open>?\<close>: does the string exist as a top-level key or element.\<close>

fun jsonb_exists :: "jsonb \<Rightarrow> string \<Rightarrow> bool" where
  "jsonb_exists JNull k = False"
| "jsonb_exists (JObject kvs) k = (k \<in> set (map fst kvs))"
| "jsonb_exists (JOther ks) k = (k \<in> set ks)"

text \<open>
  AgentRepo.FindAvailableWorkers:
  \<open>SELECT a.* FROM agents a INNER JOIN accounts ac ON ac.id = a.account_id
   WHERE ac.is_system_account = FALSE
   AND a.role IN ('worker', 'both') AND a.availability = 'online'
   AND (a.capabilities_offered IS NULL OR a.capabilities_offered ? $1)
   ORDER BY a.created_at DESC\<close>.
  The rows of \<open>agents\<close> are taken in the order of the query.
\<close>

definition FindAvailableWorkers :: "world \<Rightarrow> string \<Rightarrow> Agent list" where
  "FindAvailableWorkers w capability =
     [a. a \<leftarrow> agents w, ac \<leftarrow> accounts w,
         acID ac = agAccountID a,
         IsSystemAccount ac = False,
         Role a = AgentRoleWorker \<or> Role a = AgentRoleBoth,
         Availability a = AgentAvailabilityOnline,
         CapabilitiesOffered a = JNull \<or> jsonb_exists (CapabilitiesOffered a) capability]"

section \<open>Matching (backend/internal/services/matching.go)\<close>

text \<open>\<open>defaultPriceByCapability[capability]\<close>: a Go map lookup, 0 for a missing key.\<close>

definition defaultPriceByCapability :: "string \<Rightarrow> int" where
  "defaultPriceByCapability capability =
     (if capability = ''Research'' then 8
      else if capability = ''Summarize'' then 3
      else if capability = ''Data Extraction'' then 5
      else 0)"

fun getPricingPerTask :: "jsonb \<Rightarrow> string \<Rightarrow> int" where
  "getPricingPerTask JNull capability = defaultPriceByCapability capability"
| "getPricingPerTask (JOther ks) capability = defaultPriceByCapability capability"
| "getPricingPerTask (JObject m) capability =
     (case map_of m capability of
        Some price \<Rightarrow> if 0 < price then price else defaultPriceByCapability capability
      | None \<Rightarrow> defaultPriceByCapability capability)"

text \<open>
  workerCandidate. The float64 fields (\<open>schemaCompliance\<close>, \<open>successRate\<close>,
  \<open>reputation\<close>) feed only the weighted score of the \<open>auto\<close> preference and are left out.
\<close>

record workerCandidate =
  agent :: Agent
  pricingPerTask :: int
  avgResponseMs :: int

fun buildCandidates :: "Agent list \<Rightarrow> Task \<Rightarrow> uuid \<Rightarrow> workerCandidate list" where
  "buildCandidates [] task excludeID = []"
| "buildCandidates (ag # workers) task excludeID =
     (if agID ag = excludeID then buildCandidates workers task excludeID
      else
        let price = getPricingPerTask (CapabilitiesOffered ag) (CapabilityRequired task) in
        if Budget task < price then buildCandidates workers task excludeID
        else
          \<lparr>agent = ag, pricingPerTask = price,
           avgResponseMs = (case AvgResponseTimeMs ag of None \<Rightarrow> 0 | Some ms \<Rightarrow> ms)\<rparr>
            # buildCandidates workers task excludeID)"

definition routingPreference :: "Task \<Rightarrow> string" where
  "routingPreference task =
     (let p = RoutingPreference task in
      if p = [] then RoutingAuto
      else if p \<noteq> RoutingFastest \<and> p \<noteq> RoutingCheapest \<and> p \<noteq> RoutingAuto then RoutingAuto
      else p)"

text \<open>
  What the code takes from outside the repository:
  \<^item> \<open>sort_Slice\<close>: the standard library's \<open>sort.Slice\<close> with a comparison on elements;
  \<^item> \<open>auto_order\<close>: the order \<open>sort.Slice\<close> leaves the candidates in under the \<open>auto\<close>
    preference, where the comparison reads float64 scores by slice position;
  \<^item> \<open>NewRequest_ok\<close>: whether \<open>http.NewRequestWithContext\<close> accepts the endpoint URL;
  \<^item> \<open>HTTPClient_Do\<close>: the outcome of the request sent to an endpoint, given the number
    of requests sent before it;
  \<^item> \<open>time_Now\<close>: the clock, read at the same index.
\<close>

datatype http_result = TransportError | Response int

record env =
  sort_Slice ::
    "(workerCandidate \<Rightarrow> workerCandidate \<Rightarrow> bool) \<Rightarrow> workerCandidate list \<Rightarrow> workerCandidate list"
  auto_order :: "workerCandidate list \<Rightarrow> workerCandidate list"
  NewRequest_ok :: "string \<Rightarrow> bool"
  HTTPClient_Do :: "nat \<Rightarrow> string \<Rightarrow> http_result"
  time_Now :: "nat \<Rightarrow> int"

definition scoreAndSort :: "env \<Rightarrow> workerCandidate list \<Rightarrow> Task \<Rightarrow> workerCandidate list" where
  "scoreAndSort e candidates task =
     (let pref = routingPreference task in
      if pref = RoutingFastest then
        sort_Slice e (\<lambda>ci cj. avgResponseMs ci < avgResponseMs cj) candidates
      else if pref = RoutingCheapest then
        sort_Slice e (\<lambda>ci cj. pricingPerTask ci < pricingPerTask cj) candidates
      else auto_order e candidates)"

text \<open>
  \<open>sort.Slice\<close> permutes the slice in place, so \<open>candidates[0]\<close> exists after sorting a
  non-empty slice; the empty case of the sorted list is there only to keep the model total.
\<close>

definition FindBestWorker :: "env \<Rightarrow> world \<Rightarrow> Task \<Rightarrow> Agent option" where
  "FindBestWorker e w task =
     (let workers = FindAvailableWorkers w (CapabilityRequired task);
          candidates = buildCandidates workers task uuid_Nil
      in
      if candidates = [] then None
      else (case scoreAndSort e candidates task of [] \<Rightarrow> None | c # _ \<Rightarrow> Some (agent c)))"

definition FindFallbacks :: "env \<Rightarrow> world \<Rightarrow> Task \<Rightarrow> uuid \<Rightarrow> Agent list" where
  "FindFallbacks e w task excludeAgentID =
     (let workers = FindAvailableWorkers w (CapabilityRequired task);
          candidates = buildCandidates workers task excludeAgentID
      in
      if candidates = [] then []
      else map agent (take 2 (scoreAndSort e candidates task)))"

section \<open>Schema registry: deadlines (services, Validator.GetDeadline)\<close>

definition second :: int where
  "second = 1000000000"

definition GetDeadline :: "string \<Rightarrow> RawMessage \<Rightarrow> error + int" where
  "GetDeadline capability input =
     (if capability = ''research'' then
        (case input of
           NotDecodable \<Rightarrow> Inl ErrResearchInput
         | Decoded depth \<Rightarrow>
             if depth = ''quick'' then Inr (15 * second)
             else if depth = ''standard'' then Inr (30 * second)
             else if depth = ''deep'' then Inr (45 * second)
             else Inr (30 * second))
      else if capability = ''summarize'' then Inr (15 * second)
      else if capability = ''data_extraction'' then Inr (20 * second)
      else Inl ErrUnknownCapability)"

section \<open>Dispatcher (services, Dispatcher)\<close>

definition maxRetries :: int where
  "maxRetries = 2"

definition resolveAccountID :: "world \<Rightarrow> uuid \<Rightarrow> error + uuid" where
  "resolveAccountID w agentID =
     (case AgentRepo_GetByID w agentID of
        Inl e \<Rightarrow> Inl e
      | Inr ag \<Rightarrow> Inr (agAccountID ag))"

text \<open>
  The dispatcher works on the task it was handed (a pointer in Go) and writes it to the
  store with \<open>TaskRepo.Update\<close>. Each function returns the store, the task as it leaves it
  and the error returned. \<open>TaskRepo.Update\<close> goes through the connection pool, not through the
  refund transaction, so it stays when the refund fails.
\<close>

definition refundAndFail :: "world \<Rightarrow> Task \<Rightarrow> world \<times> Task \<times> error option" where
  "refundAndFail w task =
     (let task1 = task\<lparr>Status := TaskStatusFailed, OutputStatus := TaskOutputStatusError\<rparr>;
          w1 = TaskRepo_Update w task1
      in
      case resolveAccountID w1 (RequesterAgentID task1) of
        Inl e \<Rightarrow> (w1, task1, Some e)
      | Inr requesterAccountID \<Rightarrow>
          (case RefundFailed w1 (tID task1) requesterAccountID (Budget task1) of
             (w2, Some e) \<Rightarrow> (w1, task1, Some e)
           | (w2, None) \<Rightarrow> (w2, task1, None)))"

definition failNoWorker :: "world \<Rightarrow> Task \<Rightarrow> world \<times> Task \<times> error option" where
  "failNoWorker w task = refundAndFail w task"

function dispatchToWorker :: "env \<Rightarrow> world \<Rightarrow> Task \<Rightarrow> Agent \<Rightarrow> world \<times> Task \<times> error option"
  and dispatchWithFallback :: "env \<Rightarrow> world \<Rightarrow> Task \<Rightarrow> uuid \<Rightarrow> world \<times> Task \<times> error option"
where
  "dispatchToWorker e w task worker =
     (case GetDeadline (CapabilityRequired task) (InputPayload task) of
        Inl err \<Rightarrow> (w, task, Some err)
      | Inr deadlineDur \<Rightarrow>
          let deadline = time_Now e (length (http_posts w)) + deadlineDur;
              task1 = task\<lparr>WorkerAgentID := Some (agID worker),
                           Status := TaskStatusDispatched,
                           Deadline := Some deadline\<rparr>;
              w1 = TaskRepo_Update w task1
          in
          if \<not> NewRequest_ok e (EndpointURL worker) then (w1, task1, Some ErrCreateRequest)
          else
            let w2 = w1\<lparr>http_posts := http_posts w1 @ [(EndpointURL worker, tID task1)]\<rparr> in
            (case HTTPClient_Do e (length (http_posts w1)) (EndpointURL worker) of
               TransportError \<Rightarrow> dispatchWithFallback e w2 task1 (agID worker)
             | Response statusCode \<Rightarrow>
                 if statusCode \<noteq> 200 then dispatchWithFallback e w2 task1 (agID worker)
                 else
                   let task2 = task1\<lparr>Status := TaskStatusInProgress\<rparr>;
                       w3 = TaskRepo_Update w2 task2
                   in (w3\<lparr>monitors := monitors w3 @ [(tID task2, agID worker, deadline)]\<rparr>,
                       task2, None)))"
| "dispatchWithFallback e w task failedAgentID =
     (let task1 = task\<lparr>RetryCount := go_int (RetryCount task + 1)\<rparr> in
      if maxRetries < RetryCount task1 then refundAndFail w task1
      else
        let task2 = task1\<lparr>Status := TaskStatusMatching\<rparr>;
            w1 = TaskRepo_Update w task2
        in
        (case FindFallbacks e w1 task2 failedAgentID of
           [] \<Rightarrow> refundAndFail w1 task2
         | fb # _ \<Rightarrow> dispatchToWorker e w1 task2 fb))"
  by pat_completeness auto

termination dispatchToWorker
proof (relation "measure (\<lambda>x. case x of
            Inl (e, w, task, worker) \<Rightarrow>
              2 * nat ((2 - RetryCount task) mod 18446744073709551616) + 1
          | Inr (e, w, task, failedAgentID) \<Rightarrow>
              2 * nat ((2 - RetryCount task) mod 18446744073709551616))",
       goal_cases)
  case 1
  show ?case by simp
next
  case 2
  then show ?case by simp
next
  case 3
  then show ?case by simp
next
  case (4 e w task failedAgentID task1 task2 w1 fb fbs)
  define r where "r = RetryCount task"
  define s where "s = (r + 1 + 9223372036854775808) mod 18446744073709551616"
  have s: "0 \<le> s" "s < 18446744073709551616" by (simp_all add: s_def)
  have y: "go_int (r + 1) = s - 9223372036854775808" by (simp add: go_int_def s_def)
  from 4 have le: "go_int (r + 1) \<le> 2" by (simp add: maxRetries_def r_def)
  have "(2 - r) mod 18446744073709551616
      = (9223372036854775811 - (r + 1 + 9223372036854775808)) mod 18446744073709551616" by simp
  also have "\<dots> = (9223372036854775811 - s) mod 18446744073709551616"
    unfolding s_def by (simp only: mod_diff_right_eq)
  also have "\<dots> = 9223372036854775811 - s" using s le y by simp
  finally have a: "(2 - r) mod 18446744073709551616 = 9223372036854775811 - s" .
  have b: "(2 - go_int (r + 1)) mod 18446744073709551616 = 9223372036854775810 - s"
    using s le y by simp
  have sb: "s \<le> 9223372036854775810" using le y by simp
  have "Suc (2 * nat (9223372036854775810 - s)) < 2 * nat (9223372036854775811 - s)"
    using sb by linarith
  then have "Suc (2 * nat ((2 - go_int (r + 1)) mod 18446744073709551616))
      < 2 * nat ((2 - r) mod 18446744073709551616)"
    by (simp only: a b)
  then show ?case using 4 by (simp add: r_def del: nat_mod_distrib)
qed

definition DispatchTask :: "env \<Rightarrow> world \<Rightarrow> Task \<Rightarrow> world \<times> Task \<times> error option" where
  "DispatchTask e w task =
     (case FindBestWorker e w task of
        None \<Rightarrow> failNoWorker w task
      | Some worker \<Rightarrow> dispatchToWorker e w task worker)"

text \<open>
  monitorDeadline, from the point where its sleep ends. The error of the fallback is only
  logged.
\<close>

definition monitorDeadline :: "env \<Rightarrow> world \<Rightarrow> uuid \<Rightarrow> uuid \<Rightarrow> world" where
  "monitorDeadline e w taskID workerAgentID =
     (case TaskRepo_GetByID w taskID of
        Inl err \<Rightarrow> w
      | Inr task \<Rightarrow>
          if Status task \<noteq> TaskStatusInProgress then w
          else
            let task1 = task\<lparr>Status := TaskStatusFailed, OutputStatus := TaskOutputStatusError\<rparr>;
                w1 = TaskRepo_Update w task1
            in fst (dispatchWithFallback e w1 task1 workerAgentID))"

section \<open>Task API (backend/internal/handlers/task\_handler.go)\<close>

text \<open>
  A request as the handlers see it: the task id parsed from the path by
  \<open>extractTaskID\<close> (\<open>None\<close> when it is not a UUID), the account and the agent the
  authentication middleware put into the context, and the JSON body decoded into
  \<open>taskResultRequest\<close> (\<open>None\<close> when decoding fails; a member the body omits has Go's
  zero value).
\<close>

record taskResultRequest =
  reqOutputPayload :: RawMessage
  reqOutputStatus :: string
  reqActualCost :: int

record request =
  pathID :: "uuid option"
  ctxAccount :: "Account option"
  ctxAgent :: "Agent option"
  reqBody :: "taskResultRequest option"

datatype body =
  ErrorBody string
  | ResultBody uuid string
  | TaskBody Task
  | TaskListBody "Task list"

type_synonym response = "nat \<times> body"

text \<open>
  SubmitResult. Output validation is soft (its result is only logged) and the update of the
  worker statistics only logs; neither is modelled. The escrow calls run in a transaction
  that the deferred \<open>tx.Rollback\<close> undoes on every error return, so an error leaves the
  store as it was.
\<close>

definition SubmitResult :: "world \<Rightarrow> request \<Rightarrow> world \<times> response" where
  "SubmitResult w r =
     (case pathID r of
        None \<Rightarrow> (w, (400, ErrorBody ''invalid task id''))
      | Some taskID \<Rightarrow>
     (case TaskRepo_GetByID w taskID of
        Inl err \<Rightarrow> (w, (404, ErrorBody ''task not found''))
      | Inr task \<Rightarrow>
     if Status task \<noteq> TaskStatusInProgress \<and> Status task \<noteq> TaskStatusDispatched then
       (w, (409, ErrorBody ''task is not in a dispatchable state''))
     else if (case ctxAgent r of
                None \<Rightarrow> True
              | Some callingAgent \<Rightarrow>
                  (case WorkerAgentID task of
                     None \<Rightarrow> True
                   | Some workerAgentID \<Rightarrow> agID callingAgent \<noteq> workerAgentID)) then
       (w, (403, ErrorBody ''caller is not the assigned worker''))
     else
     (case reqBody r of
        None \<Rightarrow> (w, (400, ErrorBody ''invalid JSON''))
      | Some req0 \<Rightarrow>
     let req = (if reqOutputStatus req0 = [] then req0\<lparr>reqOutputStatus := TaskOutputStatusSuccess\<rparr>
                else req0);
         task1 = task\<lparr>OutputPayload := reqOutputPayload req,
                      OutputStatus := reqOutputStatus req,
                      ActualCost := Some (reqActualCost req)\<rparr>
     in
     (case resolveAccountID w (RequesterAgentID task1) of
        Inl err \<Rightarrow> (w, (500, ErrorBody ''internal error''))
      | Inr requesterAccount \<Rightarrow>
     if reqOutputStatus req = TaskOutputStatusSuccess \<or> reqOutputStatus req = TaskOutputStatusPartial then
       (case WorkerAgentID task1 of
          None \<Rightarrow> (w, (500, ErrorBody ''no worker assigned''))
        | Some workerAgentID \<Rightarrow>
       (case resolveAccountID w workerAgentID of
          Inl err \<Rightarrow> (w, (500, ErrorBody ''internal error''))
        | Inr workerAccount \<Rightarrow>
       let actualCost = (if reqActualCost req \<le> 0 then Budget task1 else reqActualCost req);
           platformFee = go_quo (go_int (actualCost * 10)) 100;
           task2 = task1\<lparr>PlatformFee := Some platformFee, Status := TaskStatusCompleted\<rparr>
       in
       (case SettleTask w (tID task2) requesterAccount workerAccount (Budget task2) actualCost of
          (w1, Some err) \<Rightarrow> (w, (500, ErrorBody ''settlement failed''))
        | (w1, None) \<Rightarrow>
            (TaskRepo_Update w1 task2, (200, ResultBody (tID task2) (Status task2))))))
     else if reqOutputStatus req = TaskOutputStatusError then
       (let task2 = task1\<lparr>Status := TaskStatusFailed\<rparr> in
        case RefundFailed w (tID task2) requesterAccount (Budget task2) of
          (w1, Some err) \<Rightarrow> (w, (500, ErrorBody ''refund failed''))
        | (w1, None) \<Rightarrow>
            (TaskRepo_Update w1 task2, (200, ResultBody (tID task2) (Status task2))))
     else (w, (400, ErrorBody ''invalid output_status''))))))"

text \<open>GetTask: GET /v1/tasks/{id}. It reads the store and nothing of the context.\<close>

definition GetTask :: "world \<Rightarrow> request \<Rightarrow> response" where
  "GetTask w r =
     (case pathID r of
        None \<Rightarrow> (400, ErrorBody ''invalid task id'')
      | Some taskID \<Rightarrow>
          (case TaskRepo_GetByID w taskID of
             Inl err \<Rightarrow> (404, ErrorBody ''task not found'')
           | Inr task \<Rightarrow> (200, TaskBody task)))"

text \<open>listTasks: GET /v1/tasks (cmd/api, RegisterV1Routes).\<close>

definition listTasks :: "world \<Rightarrow> request \<Rightarrow> response" where
  "listTasks w r =
     (case ctxAccount r of
        None \<Rightarrow> (401, ErrorBody ''unauthorized'')
      | Some acc \<Rightarrow>
          (case ctxAgent r of
             None \<Rightarrow> (400, ErrorBody ''no agent found for account'')
           | Some ag \<Rightarrow> (200, TaskListBody (ListByRequesterAgentID w (agID ag)))))"

section \<open>Sequences of escrow operations\<close>

text \<open>
  The ledger properties speak of sequences of lock, settle and refund operations on
  arbitrary accounts and amounts: each operation is applied to the store the previous
  one left.
\<close>

datatype escrow_op =
  Lock uuid uuid int
  | Settle uuid uuid uuid int int
  | Refund uuid uuid int

fun apply_op :: "world \<Rightarrow> escrow_op \<Rightarrow> world" where
  "apply_op w (Lock accountID taskID amount) = fst (LockCredits w accountID taskID amount)"
| "apply_op w (Settle taskID requesterID workerID budget actualCost) =
     fst (SettleTask w taskID requesterID workerID budget actualCost)"
| "apply_op w (Refund taskID requesterID budget) = fst (RefundFailed w taskID requesterID budget)"

fun run_ops :: "world \<Rightarrow> escrow_op list \<Rightarrow> world" where
  "run_ops w [] = w"
| "run_ops w (x # xs) = run_ops (apply_op w x) xs"

section \<open>Example states\<close>

text \<open>The helper \<open>acct\<close> of escrow\_test.go.\<close>

definition acct :: "uuid \<Rightarrow> int \<Rightarrow> Account" where
  "acct i b = \<lparr>acID = i, CreditBalance = b, IsSystemAccount = False\<rparr>"

text \<open>
  A store after the admission of two tasks. Account 10 (agent 11) is the requester and has
  locked 100 credits for task 100 and 10 credits for task 200; account 20 (agent 21) is a
  worker that offers research at 5 credits; account 30 (agent 31) is a second worker that
  advertises nothing (\<open>capabilities_offered\<close> is NULL); account 1 is the platform account.
  Task 100 is in progress at agent 21; task 200 waits for a worker.
\<close>

definition worker21 :: Agent where
  "worker21 = \<lparr>agID = 21, agAccountID = 20, Role = ''worker'', EndpointURL = ''http://w21'',
     CapabilitiesOffered = JObject [(''research'', 5)], Availability = ''online'',
     AvgResponseTimeMs = Some 100\<rparr>"

definition worker31 :: Agent where
  "worker31 = \<lparr>agID = 31, agAccountID = 30, Role = ''both'', EndpointURL = ''http://w31'',
     CapabilitiesOffered = JNull, Availability = ''online'',
     AvgResponseTimeMs = None\<rparr>"

definition requester11 :: Agent where
  "requester11 = \<lparr>agID = 11, agAccountID = 10, Role = ''requester'', EndpointURL = [],
     CapabilitiesOffered = JNull, Availability = ''offline'',
     AvgResponseTimeMs = None\<rparr>"

definition task100 :: Task where
  "task100 = \<lparr>tID = 100, RequesterAgentID = 11, WorkerAgentID = Some 21,
     CapabilityRequired = ''research'', InputPayload = Decoded ''standard'',
     OutputPayload = Decoded [], OutputStatus = [], Status = ''in_progress'', Budget = 100,
     ActualCost = None, PlatformFee = None, Deadline = Some 30000000000, RetryCount = 0,
     RoutingPreference = []\<rparr>"

definition task200 :: Task where
  "task200 = \<lparr>tID = 200, RequesterAgentID = 11, WorkerAgentID = None,
     CapabilityRequired = ''research'', InputPayload = Decoded ''quick'',
     OutputPayload = Decoded [], OutputStatus = [], Status = ''matching'', Budget = 10,
     ActualCost = None, PlatformFee = None, Deadline = None, RetryCount = 0,
     RoutingPreference = []\<rparr>"

definition example_world :: world where
  "example_world =
     \<lparr>accounts = [acct 10 890, acct 20 200,
                  \<lparr>acID = SystemPlatformAccountID, CreditBalance = 0, IsSystemAccount = True\<rparr>,
                  acct 30 500],
      credit_ledger =
        [\<lparr>leAccountID = 10, leTaskID = Some 100, EntryType = CreditEntryEscrowLock,
          Amount = 100, BalanceAfter = Some 900\<rparr>,
         \<lparr>leAccountID = 10, leTaskID = Some 200, EntryType = CreditEntryEscrowLock,
          Amount = 10, BalanceAfter = Some 890\<rparr>],
      agents = [worker31, worker21, requester11],
      tasks = [task200, task100],
      http_posts = [],
      monitors = []\<rparr>"

text \<open>
  An insertion sort that moves each element left past the elements it is less than, which
  is what \<open>sort.Slice\<close> runs on short slices.
\<close>

fun insertLeft :: "('a \<Rightarrow> 'a \<Rightarrow> bool) \<Rightarrow> 'a \<Rightarrow> 'a list \<Rightarrow> 'a list" where
  "insertLeft lt x [] = [x]"
| "insertLeft lt x (y # ys) =
     (if lt x y then y # insertLeft lt x ys else x # y # ys)"

definition insertionSort :: "('a \<Rightarrow> 'a \<Rightarrow> bool) \<Rightarrow> 'a list \<Rightarrow> 'a list" where
  "insertionSort lt xs = rev (foldl (\<lambda>pre x. insertLeft lt x pre) [] xs)"

text \<open>
  An environment in which every worker endpoint answers with the same status code, and one
  in which no endpoint can be reached.
\<close>

definition env_status :: "int \<Rightarrow> env" where
  "env_status statusCode =
     \<lparr>sort_Slice = insertionSort, auto_order = (\<lambda>cs. cs), NewRequest_ok = (\<lambda>url. True),
      HTTPClient_Do = (\<lambda>n url. Response statusCode), time_Now = (\<lambda>n. 0)\<rparr>"

definition env_unreachable :: env where
  "env_unreachable =
     \<lparr>sort_Slice = insertionSort, auto_order = (\<lambda>cs. cs), NewRequest_ok = (\<lambda>url. True),
      HTTPClient_Do = (\<lambda>n url. TransportError), time_Now = (\<lambda>n. 0)\<rparr>"

text \<open>
  The example store with a mistyped endpoint for agent 31: the URL starts with a colon, so
  it has no protocol scheme and \<open>url.Parse\<close>, which \<open>http.NewRequestWithContext\<close> calls,
  rejects it (error: missing protocol scheme). The \<open>endpoint_url\<close> column takes any string.
  The environment is \<open>env_status\<close> with a parser that rejects such URLs.
\<close>

definition unparsable_world :: world where
  "unparsable_world =
     example_world\<lparr>agents := [worker31\<lparr>EndpointURL := ''://w31''\<rparr>, worker21, requester11]\<rparr>"

definition env_parse :: "int \<Rightarrow> env" where
  "env_parse statusCode =
     (env_status statusCode)\<lparr>NewRequest_ok := (\<lambda>url. take 1 url \<noteq> '':'')\<rparr>"

text \<open>
  The example store after a settlement of task 100 that pays \<open>earn\<close> to the worker
  account, \<open>fee\<close> to the platform account and \<open>rem\<close> back to the requester account.
\<close>

definition paid :: "int \<Rightarrow> int \<Rightarrow> int \<Rightarrow> world" where
  "paid earn fee rem =
     example_world
       \<lparr>accounts :=
          [acct 10 (890 + rem), acct 20 (200 + earn),
           \<lparr>acID = SystemPlatformAccountID, CreditBalance = fee, IsSystemAccount = True\<rparr>,
           acct 30 500],
        credit_ledger :=
          credit_ledger example_world @
          [\<lparr>leAccountID = 20, leTaskID = Some 100, EntryType = CreditEntryTaskEarning,
            Amount = earn, BalanceAfter = Some (200 + earn)\<rparr>,
           \<lparr>leAccountID = SystemPlatformAccountID, leTaskID = Some 100,
            EntryType = CreditEntryPlatformFee, Amount = fee, BalanceAfter = Some fee\<rparr>]
          @ (if 0 < rem then
               [\<lparr>leAccountID = 10, leTaskID = Some 100, EntryType = CreditEntryEscrowRelease,
                 Amount = rem, BalanceAfter = Some (890 + rem)\<rparr>]
             else [])\<rparr>"

text \<open>
  Requests in the example store: the result callback for a task, sent with the API key of
  the account that owns the given agent, and the same principal reading a task.
\<close>

definition callback :: "Agent \<Rightarrow> uuid \<Rightarrow> string \<Rightarrow> int \<Rightarrow> request" where
  "callback ag taskID status cost =
     \<lparr>pathID = Some taskID,
      ctxAccount = find (\<lambda>a. acID a = agAccountID ag) (accounts example_world),
      ctxAgent = Some ag,
      reqBody = Some \<lparr>reqOutputPayload = Decoded [], reqOutputStatus = status,
                      reqActualCost = cost\<rparr>\<rparr>"

definition get_task :: "Agent \<Rightarrow> uuid \<Rightarrow> request" where
  "get_task ag taskID =
     \<lparr>pathID = Some taskID,
      ctxAccount = find (\<lambda>a. acID a = agAccountID ag) (accounts example_world),
      ctxAgent = Some ag,
      reqBody = None\<rparr>"

text \<open>The example store after worker 21 has reported success for task 100 at a cost of 80.\<close>

definition settled_world :: world where
  "settled_world = fst (SubmitResult example_world (callback worker21 100 ''success'' 80))"

section \<open>Properties of the store and of the escrow operations\<close>

declare dispatchToWorker.simps [simp del] dispatchWithFallback.simps [simp del]

lemmas example_defs = example_world_def acct_def worker21_def worker31_def requester11_def
  task100_def task200_def SystemPlatformAccountID_def

subsection \<open>Rows\<close>

lemma filter_hd_in: "filter P xs = a # as \<Longrightarrow> a \<in> set xs \<and> P a"
proof -
  assume "filter P xs = a # as"
  then have "a \<in> set (filter P xs)" by simp
  then show ?thesis by simp
qed

lemma filter_first_stronger:
  "filter P xs = a # as \<Longrightarrow> Q a \<Longrightarrow> (\<And>x. Q x \<Longrightarrow> P x) \<Longrightarrow> \<exists>bs. filter Q xs = a # bs"
  by (induction xs) (auto split: if_splits)

lemma filter_map_same:
  "(\<And>x. P (f x) = P x) \<Longrightarrow> filter P (map f xs) = map f (filter P xs)"
  by (induction xs) auto

lemma GetByIDForUpdate_acID: "GetByIDForUpdate w aid = Inr a \<Longrightarrow> acID a = aid \<and> a \<in> set (accounts w)"
  by (auto simp: GetByIDForUpdate_def split: list.splits dest: filter_hd_in)

lemma GetByIDForUpdate_CreateTx [simp]: "GetByIDForUpdate (CreateTx w c) x = GetByIDForUpdate w x"
  by (simp add: GetByIDForUpdate_def CreateTx_def)

lemma balance_of_CreateTx [simp]: "balance_of (CreateTx w c) x = balance_of w x"
  by (simp add: balance_of_def)

lemma accounts_CreateTx [simp]: "accounts (CreateTx w c) = accounts w"
  by (simp add: CreateTx_def)

lemma credit_ledger_CreateTx [simp]: "credit_ledger (CreateTx w c) = credit_ledger w @ [c]"
  by (simp add: CreateTx_def)

lemma AddCredits_effect:
  assumes "GetByIDForUpdate w aid = Inr a"
  shows "\<exists>w1. AddCredits w aid amt = Inr (balance_of w aid + amt, w1)
           \<and> credit_ledger w1 = credit_ledger w
           \<and> (\<forall>x. balance_of w1 x = balance_of w x + (if x = aid then amt else 0))
           \<and> (\<forall>x. isl (GetByIDForUpdate w1 x) = isl (GetByIDForUpdate w x))
           \<and> tasks w1 = tasks w \<and> agents w1 = agents w
           \<and> http_posts w1 = http_posts w \<and> monitors w1 = monitors w"
proof -
  let ?f = "\<lambda>a. if acID a = aid then a\<lparr>CreditBalance := CreditBalance a + amt\<rparr> else a"
  let ?w1 = "w\<lparr>accounts := map ?f (accounts w)\<rparr>"
  from assms obtain rest where f: "filter (\<lambda>a. acID a = aid) (accounts w) = a # rest"
    by (auto simp: GetByIDForUpdate_def split: list.splits)
  have r: "AddCredits w aid amt = Inr (balance_of w aid + amt, ?w1)"
    using f assms by (simp add: AddCredits_def balance_of_def)
  have g: "filter (\<lambda>a. acID a = x) (map ?f (accounts w)) = map ?f (filter (\<lambda>a. acID a = x) (accounts w))" for x
    by (rule filter_map_same) simp
  have b: "balance_of ?w1 x = balance_of w x + (if x = aid then amt else 0)" for x
    using f by (cases "filter (\<lambda>a. acID a = x) (accounts w)")
       (auto simp: balance_of_def GetByIDForUpdate_def g dest: filter_hd_in)
  have i: "isl (GetByIDForUpdate ?w1 x) = isl (GetByIDForUpdate w x)" for x
    by (cases "filter (\<lambda>a. acID a = x) (accounts w)")
       (auto simp: GetByIDForUpdate_def g)
  show ?thesis using r b i by (intro exI [of _ ?w1]) simp
qed

lemma AddCredits_missing:
  "GetByIDForUpdate w aid = Inl e \<Longrightarrow> AddCredits w aid amt = Inl ErrNoRows"
  by (auto simp: GetByIDForUpdate_def AddCredits_def split: list.splits)

lemma lockAll_None: "lockAll w ids = None \<longleftrightarrow> (\<forall>x\<in>set ids. \<not> isl (GetByIDForUpdate w x))"
  by (induction ids) (auto split: sum.splits)


lemma other_fields_CreateTx [simp]:
  "tasks (CreateTx w c) = tasks w" "agents (CreateTx w c) = agents w"
  "http_posts (CreateTx w c) = http_posts w" "monitors (CreateTx w c) = monitors w"
  by (simp_all add: CreateTx_def)

lemma not_isl_Inr: "\<not> isl x \<Longrightarrow> \<exists>a. x = Inr a"
  by (cases x) auto

lemma SettleTask_effect:
  fixes w taskID requesterID workerID budget actualCost
  defines "fee \<equiv> go_quo (go_int (actualCost * 10)) 100"
  defines "earn \<equiv> go_int (actualCost - fee)"
  defines "rem \<equiv> (if go_int (budget - actualCost) < 0 then 0 else go_int (budget - actualCost))"
  assumes ex: "\<not> isl (GetByIDForUpdate w requesterID)" "\<not> isl (GetByIDForUpdate w workerID)"
    "\<not> isl (GetByIDForUpdate w SystemPlatformAccountID)"
  shows "\<exists>w'. SettleTask w taskID requesterID workerID budget actualCost = (w', None)
     \<and> (\<forall>x. balance_of w' x = balance_of w x + (if x = workerID then earn else 0)
            + (if x = SystemPlatformAccountID then fee else 0) + (if x = requesterID then rem else 0))
     \<and> credit_ledger w' = credit_ledger w @
          [\<lparr>leAccountID = workerID, leTaskID = Some taskID, EntryType = CreditEntryTaskEarning,
            Amount = earn, BalanceAfter = Some (balance_of w workerID + earn)\<rparr>,
           \<lparr>leAccountID = SystemPlatformAccountID, leTaskID = Some taskID,
            EntryType = CreditEntryPlatformFee, Amount = fee,
            BalanceAfter = Some (balance_of w SystemPlatformAccountID
               + (if SystemPlatformAccountID = workerID then earn else 0) + fee)\<rparr>]
          @ (if 0 < rem then
               [\<lparr>leAccountID = requesterID, leTaskID = Some taskID,
                 EntryType = CreditEntryEscrowRelease, Amount = rem,
                 BalanceAfter = Some (balance_of w requesterID
                   + (if requesterID = workerID then earn else 0)
                   + (if requesterID = SystemPlatformAccountID then fee else 0) + rem)\<rparr>]
             else [])
     \<and> tasks w' = tasks w \<and> agents w' = agents w
     \<and> http_posts w' = http_posts w \<and> monitors w' = monitors w"
proof -
  have lock: "lockAll w (sort [requesterID, workerID, SystemPlatformAccountID]) = None"
    using ex by (simp add: lockAll_None)
  from ex(2) obtain wa where "GetByIDForUpdate w workerID = Inr wa"
    using not_isl_Inr by blast
  from AddCredits_effect [OF this, of earn] obtain w1 where
    a1: "AddCredits w workerID earn = Inr (balance_of w workerID + earn, w1)"
    and l1: "credit_ledger w1 = credit_ledger w"
    and b1: "\<And>x. balance_of w1 x = balance_of w x + (if x = workerID then earn else 0)"
    and i1: "\<And>x. isl (GetByIDForUpdate w1 x) = isl (GetByIDForUpdate w x)"
    and o1: "tasks w1 = tasks w" "agents w1 = agents w" "http_posts w1 = http_posts w" "monitors w1 = monitors w"
    by blast
  define e1 where "e1 = \<lparr>leAccountID = workerID, leTaskID = Some taskID, EntryType = CreditEntryTaskEarning,
            Amount = earn, BalanceAfter = Some (balance_of w workerID + earn)\<rparr>"
  define w2 where "w2 = CreateTx w1 e1"
  have "\<not> isl (GetByIDForUpdate w2 SystemPlatformAccountID)"
    using ex(3) by (simp add: w2_def i1)
  then obtain pa where "GetByIDForUpdate w2 SystemPlatformAccountID = Inr pa"
    using not_isl_Inr by blast
  from AddCredits_effect [OF this, of fee] obtain w3 where
    a3: "AddCredits w2 SystemPlatformAccountID fee = Inr (balance_of w2 SystemPlatformAccountID + fee, w3)"
    and l3: "credit_ledger w3 = credit_ledger w2"
    and b3: "\<And>x. balance_of w3 x = balance_of w2 x + (if x = SystemPlatformAccountID then fee else 0)"
    and i3: "\<And>x. isl (GetByIDForUpdate w3 x) = isl (GetByIDForUpdate w2 x)"
    and o3: "tasks w3 = tasks w2" "agents w3 = agents w2" "http_posts w3 = http_posts w2" "monitors w3 = monitors w2"
    by blast
  define e2 where "e2 = \<lparr>leAccountID = SystemPlatformAccountID, leTaskID = Some taskID,
            EntryType = CreditEntryPlatformFee, Amount = fee,
            BalanceAfter = Some (balance_of w2 SystemPlatformAccountID + fee)\<rparr>"
  define w4 where "w4 = CreateTx w3 e2"
  have "\<not> isl (GetByIDForUpdate w4 requesterID)"
    using ex(1) by (simp add: w4_def i3 w2_def i1)
  then obtain ra where "GetByIDForUpdate w4 requesterID = Inr ra"
    using not_isl_Inr by blast
  from AddCredits_effect [OF this, of rem] obtain w5 where
    a5: "AddCredits w4 requesterID rem = Inr (balance_of w4 requesterID + rem, w5)"
    and l5: "credit_ledger w5 = credit_ledger w4"
    and b5: "\<And>x. balance_of w5 x = balance_of w4 x + (if x = requesterID then rem else 0)"
    and o5: "tasks w5 = tasks w4" "agents w5 = agents w4" "http_posts w5 = http_posts w4" "monitors w5 = monitors w4"
    by blast
  define e3 where "e3 = \<lparr>leAccountID = requesterID, leTaskID = Some taskID,
                 EntryType = CreditEntryEscrowRelease, Amount = rem,
                 BalanceAfter = Some (balance_of w4 requesterID + rem)\<rparr>"
  have rem0: "0 \<le> rem" by (simp add: rem_def)
  have res: "SettleTask w taskID requesterID workerID budget actualCost
      = (if 0 < rem then (CreateTx w5 e3, None) else (w4, None))"
    unfolding SettleTask_def Let_def fee_def [symmetric]
    unfolding earn_def [symmetric] rem_def [symmetric] lock
    by (simp add: a1 e1_def [symmetric] w2_def [symmetric] a3 e2_def [symmetric]
        w4_def [symmetric] a5 e3_def [symmetric])
  show ?thesis
  proof (cases "0 < rem")
    case True
    then show ?thesis
      unfolding res
      by (intro exI [of _ "CreateTx w5 e3"])
         (simp add: b5 b3 b1 l5 l3 l1 o5 o3 o1 w4_def w2_def e1_def e2_def e3_def)
  next
    case False
    with rem0 have "rem = 0" by simp
    then show ?thesis
      unfolding res
      by (intro exI [of _ w4])
         (simp add: b3 b1 l3 l1 o3 o1 w4_def w2_def e1_def e2_def)
  qed
qed

subsection \<open>Go arithmetic in range\<close>

lemma go_int_id: "- 9223372036854775808 \<le> x \<Longrightarrow> x \<le> MaxInt64 \<Longrightarrow> go_int x = x"
  by (simp add: go_int_def MaxInt64_def)

lemma go_fee_in_range:
  assumes "0 \<le> c" "c * 10 \<le> MaxInt64"
  shows "go_quo (go_int (c * 10)) 100 = c * 10 div 100"
proof -
  have a: "go_int (c * 10) = c * 10" using assms by (intro go_int_id) simp_all
  have b: "c * 10 div 100 \<le> c * 10" using assms(1) by linarith
  have c: "0 \<le> c * 10 div 100" using assms(1) by simp
  have q: "sgn (c * 10) * sgn (100::int) * (\<bar>c * 10\<bar> div \<bar>100\<bar>) = c * 10 div 100"
    using assms(1) by (cases "c = 0") (simp_all add: sgn_if)
  have "go_int (c * 10 div 100) = c * 10 div 100"
    using b c assms(2) by (intro go_int_id) linarith+
  then show ?thesis unfolding go_quo_def a q .
qed

lemma fee_le: "0 \<le> (c::int) \<Longrightarrow> c * 10 div 100 \<le> c"
  by linarith

lemma DeductCredits_first:
  assumes "GetByIDForUpdate w aid = Inr acc" and "amount \<le> CreditBalance acc"
  shows "\<exists>w1. DeductCredits w aid amount = Inr (CreditBalance acc - amount, w1)
     \<and> GetByIDForUpdate w1 aid = Inr (acc\<lparr>CreditBalance := CreditBalance acc - amount\<rparr>)
     \<and> credit_ledger w1 = credit_ledger w
     \<and> accounts w1 = map (\<lambda>a. if acID a = aid \<and> amount \<le> CreditBalance a
          then a\<lparr>CreditBalance := CreditBalance a - amount\<rparr> else a) (accounts w)"
proof -
  from assms(1) obtain rest where f: "filter (\<lambda>a. acID a = aid) (accounts w) = acc # rest"
    by (auto simp: GetByIDForUpdate_def split: list.splits)
  then have id: "acID acc = aid" using filter_hd_in by fastforce
  let ?hit = "\<lambda>a. acID a = aid \<and> amount \<le> CreditBalance a"
  let ?f = "\<lambda>a. if ?hit a then a\<lparr>CreditBalance := CreditBalance a - amount\<rparr> else a"
  from filter_first_stronger [OF f, of ?hit] assms(2) id
  obtain bs where h: "filter ?hit (accounts w) = acc # bs" by auto
  have "filter (\<lambda>a. acID a = aid) (map ?f (accounts w)) = map ?f (acc # rest)"
    using filter_map_same [of "\<lambda>a. acID a = aid" ?f "accounts w"] f by simp
  then show ?thesis
    using h assms(2) id by (simp add: DeductCredits_def GetByIDForUpdate_def Let_def)
qed

subsection \<open>LockCredits\<close>

text \<open>
  Claim C4 (no negative balances). Whatever the account and the amount, \<open>LockCredits\<close>
  takes no balance below 0: a store whose balances are all non-negative stays so, and after
  a successful lock the balance of the account is non-negative. When the balance is less
  than the amount the call fails with \<open>ErrInsufficientFunds\<close>; every failing call leaves the
  store as it was (nothing deducted, no ledger entry). When the balance suffices, the call
  succeeds, deducts the amount and appends one \<open>escrow_lock\<close> entry that records the new
  balance.
\<close>

theorem LockCredits_no_negative_balance:
  assumes "LockCredits w accountID taskID amount = (w', err)"
  shows "((\<forall>a\<in>set (accounts w). 0 \<le> CreditBalance a) \<longrightarrow> (\<forall>a\<in>set (accounts w'). 0 \<le> CreditBalance a))
       \<and> (err = None \<longrightarrow> 0 \<le> balance_of w' accountID)
       \<and> (\<forall>acc. GetByIDForUpdate w accountID = Inr acc \<and> CreditBalance acc < amount
              \<longrightarrow> err = Some ErrInsufficientFunds)
       \<and> (err \<noteq> None \<longrightarrow> w' = w)
       \<and> (\<forall>acc. GetByIDForUpdate w accountID = Inr acc \<and> amount \<le> CreditBalance acc
              \<longrightarrow> err = None \<and> balance_of w' accountID = CreditBalance acc - amount
                \<and> credit_ledger w' = credit_ledger w @
                     [\<lparr>leAccountID = accountID, leTaskID = Some taskID,
                       EntryType = CreditEntryEscrowLock, Amount = amount,
                       BalanceAfter = Some (CreditBalance acc - amount)\<rparr>])"
proof (cases "GetByIDForUpdate w accountID")
  case (Inl e)
  with assms show ?thesis by (auto simp: LockCredits_def)
next
  case (Inr acc)
  show ?thesis
  proof (cases "CreditBalance acc < amount")
    case True
    with Inr assms show ?thesis by (auto simp: LockCredits_def)
  next
    case False
    then have le: "amount \<le> CreditBalance acc" by simp
    from DeductCredits_first [OF Inr le] obtain w1 where
      d: "DeductCredits w accountID amount = Inr (CreditBalance acc - amount, w1)"
      and g: "GetByIDForUpdate w1 accountID = Inr (acc\<lparr>CreditBalance := CreditBalance acc - amount\<rparr>)"
      and l: "credit_ledger w1 = credit_ledger w"
      and acc1: "accounts w1 = map (\<lambda>a. if acID a = accountID \<and> amount \<le> CreditBalance a
          then a\<lparr>CreditBalance := CreditBalance a - amount\<rparr> else a) (accounts w)"
      by blast
    from assms Inr False d have w': "w' = CreateTx w1
                    \<lparr>leAccountID = accountID, leTaskID = Some taskID,
                     EntryType = CreditEntryEscrowLock, Amount = amount,
                     BalanceAfter = Some (CreditBalance acc - amount)\<rparr>" and err: "err = None"
      by (auto simp: LockCredits_def)
    show ?thesis using err g le False Inr acc1 l
      by (auto simp: balance_of_def w')
  qed
qed

theorem LockCredits_no_negative_balance_witness:
  "LockCredits example_world 10 300 9999 = (example_world, Some ErrInsufficientFunds)
   \<and> snd (LockCredits example_world 10 300 200) = None
   \<and> balance_of (fst (LockCredits example_world 10 300 200)) 10 = 690"
proof -
  have g: "GetByIDForUpdate example_world 10 = Inr (acct 10 890)"
    by (simp add: GetByIDForUpdate_def example_defs)
  have a: "LockCredits example_world 10 300 9999
      = (fst (LockCredits example_world 10 300 9999), snd (LockCredits example_world 10 300 9999))"
    by simp
  have b: "LockCredits example_world 10 300 200
      = (fst (LockCredits example_world 10 300 200), snd (LockCredits example_world 10 300 200))"
    by simp
  have "snd (LockCredits example_world 10 300 9999) = Some ErrInsufficientFunds"
    using LockCredits_no_negative_balance [OF a] g by (simp add: acct_def)
  moreover from this have "fst (LockCredits example_world 10 300 9999) = example_world"
    using LockCredits_no_negative_balance [OF a] by simp
  moreover have "snd (LockCredits example_world 10 300 200) = None
      \<and> balance_of (fst (LockCredits example_world 10 300 200)) 10 = 690"
    using LockCredits_no_negative_balance [OF b] g by (simp add: acct_def)
  ultimately show ?thesis by (simp add: prod_eq_iff)
qed

subsection \<open>SettleTask\<close>

text \<open>
  Claim C2 (settlement split). For a budget \<open>B\<close> and an actual cost \<open>C\<close> with
  \<open>1 \<le> C \<le> B\<close>, a settlement on existing accounts succeeds, credits the worker account
  exactly \<open>C - floor (C * 10 / 100)\<close>, the platform account exactly \<open>floor (C * 10 / 100)\<close>
  and the requester account exactly \<open>B - C\<close>, and writes a \<open>task_earning\<close> and a
  \<open>platform_fee\<close> entry, followed by an \<open>escrow_release\<close> entry unless \<open>B - C = 0\<close>.
  The amounts are Go \<open>int\<close>s: \<open>B\<close> is at most \<open>MaxInt64\<close> and \<open>C * 10\<close> does not
  overflow, which holds for every budget the \<open>INT\<close> column of the tasks table can store.
  When two of the three accounts coincide, the account receives both credits.
\<close>

theorem SettleTask_split:
  assumes "1 \<le> C" and "C \<le> B" and "B \<le> MaxInt64" and "C * 10 \<le> MaxInt64"
    and "GetByIDForUpdate w requesterID = Inr ra"
    and "GetByIDForUpdate w workerID = Inr wa"
    and "GetByIDForUpdate w SystemPlatformAccountID = Inr pa"
    and "SettleTask w taskID requesterID workerID B C = (w', err)"
  shows "err = None
     \<and> (\<forall>x. balance_of w' x = balance_of w x
            + (if x = workerID then C - C * 10 div 100 else 0)
            + (if x = SystemPlatformAccountID then C * 10 div 100 else 0)
            + (if x = requesterID then B - C else 0))
     \<and> map (\<lambda>e. (leAccountID e, leTaskID e, EntryType e, Amount e))
          (drop (length (credit_ledger w)) (credit_ledger w'))
        = [(workerID, Some taskID, CreditEntryTaskEarning, C - C * 10 div 100),
           (SystemPlatformAccountID, Some taskID, CreditEntryPlatformFee, C * 10 div 100)]
          @ (if B - C = 0 then []
             else [(requesterID, Some taskID, CreditEntryEscrowRelease, B - C)])"
proof -
  have fee: "go_quo (go_int (C * 10)) 100 = C * 10 div 100"
    using assms(1,4) by (intro go_fee_in_range) simp_all
  have f2: "C * 10 div 100 \<le> C" "0 \<le> C * 10 div 100" using assms(1) fee_le [of C] by simp_all
  have earn: "go_int (C - C * 10 div 100) = C - C * 10 div 100"
    using f2 assms(1,2,3) by (intro go_int_id) simp_all
  have rem: "go_int (B - C) = B - C"
    using assms(1,2,3) by (intro go_int_id) simp_all
  from SettleTask_effect [of w requesterID workerID taskID B C] assms(5,6,7)
  obtain w2 where r: "SettleTask w taskID requesterID workerID B C = (w2, None)"
    and b: "\<And>x. balance_of w2 x = balance_of w x
            + (if x = workerID then C - C * 10 div 100 else 0)
            + (if x = SystemPlatformAccountID then C * 10 div 100 else 0)
            + (if x = requesterID then (if B - C < 0 then 0 else B - C) else 0)"
    and l: "credit_ledger w2 = credit_ledger w @
          [\<lparr>leAccountID = workerID, leTaskID = Some taskID, EntryType = CreditEntryTaskEarning,
            Amount = C - C * 10 div 100, BalanceAfter = Some (balance_of w workerID + (C - C * 10 div 100))\<rparr>,
           \<lparr>leAccountID = SystemPlatformAccountID, leTaskID = Some taskID,
            EntryType = CreditEntryPlatformFee, Amount = C * 10 div 100,
            BalanceAfter = Some (balance_of w SystemPlatformAccountID
               + (if SystemPlatformAccountID = workerID then C - C * 10 div 100 else 0) + C * 10 div 100)\<rparr>]
          @ (if 0 < (if B - C < 0 then 0 else B - C) then
               [\<lparr>leAccountID = requesterID, leTaskID = Some taskID,
                 EntryType = CreditEntryEscrowRelease, Amount = (if B - C < 0 then 0 else B - C),
                 BalanceAfter = Some (balance_of w requesterID
                   + (if requesterID = workerID then C - C * 10 div 100 else 0)
                   + (if requesterID = SystemPlatformAccountID then C * 10 div 100 else 0) + (if B - C < 0 then 0 else B - C))\<rparr>]
             else [])"
    unfolding fee earn rem by auto
  from r assms(8) have w': "w' = w2" and e: "err = None" by simp_all
  have nn: "\<not> B - C < 0" using assms(2) by simp
  show ?thesis unfolding w' e using nn assms(2) by (simp add: b l)
qed

theorem SettleTask_split_witness:
  "snd (SettleTask example_world 100 10 20 100 80) = None
   \<and> balance_of (fst (SettleTask example_world 100 10 20 100 80)) 20 = 200 + 72
   \<and> balance_of (fst (SettleTask example_world 100 10 20 100 80)) SystemPlatformAccountID = 0 + 8
   \<and> balance_of (fst (SettleTask example_world 100 10 20 100 80)) 10 = 890 + 20"
proof -
  have r: "GetByIDForUpdate example_world 10 = Inr (acct 10 890)"
    and wk: "GetByIDForUpdate example_world 20 = Inr (acct 20 200)"
    and p: "GetByIDForUpdate example_world SystemPlatformAccountID
       = Inr \<lparr>acID = SystemPlatformAccountID, CreditBalance = 0, IsSystemAccount = True\<rparr>"
    by (simp_all add: GetByIDForUpdate_def example_defs)
  have s: "SettleTask example_world 100 10 20 100 80
      = (fst (SettleTask example_world 100 10 20 100 80), snd (SettleTask example_world 100 10 20 100 80))"
    by simp
  have bal: "balance_of example_world 10 = 890" "balance_of example_world 20 = 200"
    "balance_of example_world SystemPlatformAccountID = 0"
    by (simp_all add: balance_of_def r wk p acct_def)
  have ne: "SystemPlatformAccountID \<noteq> 20" "SystemPlatformAccountID \<noteq> 10"
    by (simp_all add: SystemPlatformAccountID_def)
  from SettleTask_split [OF _ _ _ _ r wk p s]
  show ?thesis by (simp add: MaxInt64_def bal ne)
qed

subsection \<open>The sum of all balances\<close>

lemma sum_update_row:
  "distinct (map acID xs) \<Longrightarrow>
   sum_list (map CreditBalance
      (map (\<lambda>a. if acID a = i \<and> P a then a\<lparr>CreditBalance := CreditBalance a + d\<rparr> else a) xs))
   = sum_list (map CreditBalance xs) + (if \<exists>a\<in>set xs. acID a = i \<and> P a then d else 0)"
proof (induction xs)
  case Nil
  then show ?case by simp
next
  case (Cons a xs)
  from Cons.prems have "acID a \<notin> acID ` set xs" by simp
  then have "acID a = i \<Longrightarrow> \<not> (\<exists>b\<in>set xs. acID b = i \<and> P b)" by (auto simp: image_iff)
  with Cons show ?case by auto
qed

lemma sum_update_row_sub:
  "distinct (map acID xs) \<Longrightarrow>
   sum_list (map CreditBalance
      (map (\<lambda>a. if acID a = i \<and> P a then a\<lparr>CreditBalance := CreditBalance a - d\<rparr> else a) xs))
   = sum_list (map CreditBalance xs) - (if \<exists>a\<in>set xs. acID a = i \<and> P a then d else 0)"
proof (induction xs)
  case Nil
  then show ?case by simp
next
  case (Cons a xs)
  from Cons.prems have "acID a \<notin> acID ` set xs" by simp
  then have "acID a = i \<Longrightarrow> \<not> (\<exists>b\<in>set xs. acID b = i \<and> P b)" by (auto simp: image_iff)
  with Cons show ?case by auto
qed

lemma LockCredits_error_unchanged:
  "LockCredits w accountID taskID amount = (w', Some e) \<Longrightarrow> w' = w"
  by (auto simp: LockCredits_def split: sum.splits if_splits prod.splits)

lemma ids_update_row:
  "map acID (map (\<lambda>a. if Q a then a\<lparr>CreditBalance := f a\<rparr> else a) xs) = map acID xs"
  by (induction xs) auto

lemma AddCredits_total:
  assumes "distinct (map acID (accounts w))" and "AddCredits w aid amt = Inr (nb, w1)"
  shows "total_balance w1 = total_balance w + amt
     \<and> map acID (accounts w1) = map acID (accounts w)
     \<and> credit_ledger w1 = credit_ledger w"
proof -
  from assms(2) obtain a rest where f: "filter (\<lambda>a. acID a = aid) (accounts w) = a # rest"
    and w1: "w1 = w\<lparr>accounts := map (\<lambda>a. if acID a = aid then a\<lparr>CreditBalance := CreditBalance a + amt\<rparr> else a)
                      (accounts w)\<rparr>"
    by (auto simp: AddCredits_def split: list.splits)
  from f have ex: "\<exists>a\<in>set (accounts w). acID a = aid \<and> True" using filter_hd_in by fastforce
  show ?thesis
    using sum_update_row [OF assms(1), of aid "\<lambda>_. True" amt] ex
      ids_update_row [of "\<lambda>a. acID a = aid" "\<lambda>a. CreditBalance a + amt" "accounts w"]
    by (simp add: w1 total_balance_def)
qed

lemma DeductCredits_total:
  assumes "distinct (map acID (accounts w))" and "DeductCredits w aid amt = Inr (nb, w1)"
  shows "total_balance w1 = total_balance w - amt
     \<and> map acID (accounts w1) = map acID (accounts w)
     \<and> credit_ledger w1 = credit_ledger w"
proof -
  let ?hit = "\<lambda>a. acID a = aid \<and> amt \<le> CreditBalance a"
  from assms(2) obtain a rest where f: "filter ?hit (accounts w) = a # rest"
    and w1: "w1 = w\<lparr>accounts := map (\<lambda>a. if ?hit a then a\<lparr>CreditBalance := CreditBalance a - amt\<rparr> else a)
                      (accounts w)\<rparr>"
    by (auto simp: DeductCredits_def Let_def split: list.splits)
  from f have ex: "\<exists>a\<in>set (accounts w). acID a = aid \<and> amt \<le> CreditBalance a"
    using filter_hd_in by fastforce
  show ?thesis
    using sum_update_row_sub [OF assms(1), of aid "\<lambda>a. amt \<le> CreditBalance a" amt] ex
      ids_update_row [of ?hit "\<lambda>a. CreditBalance a - amt" "accounts w"]
    by (simp add: w1 total_balance_def)
qed

lemma credit_step:
  assumes "distinct (map acID (accounts w))" and "AddCredits w aid amt = Inr (nb, w1)"
    and "EntryType c \<noteq> CreditEntryEscrowLock" and "Amount c = amt"
  shows "total_balance (CreateTx w1 c) - ledger_sum (CreateTx w1 c) = total_balance w - ledger_sum w
     \<and> map acID (accounts (CreateTx w1 c)) = map acID (accounts w)"
  using AddCredits_total [OF assms(1,2)] assms(3,4)
  by (simp add: total_balance_def ledger_sum_def signedAmount_def)

lemma LockCredits_invariant:
  assumes "distinct (map acID (accounts w))" and "LockCredits w accountID taskID amount = (w', err)"
  shows "total_balance w' - ledger_sum w' = total_balance w - ledger_sum w
     \<and> map acID (accounts w') = map acID (accounts w)"
proof (cases err)
  case (Some e)
  with assms(2) LockCredits_error_unchanged show ?thesis by blast
next
  case None
  with assms(2) obtain acc nb w1 where d: "DeductCredits w accountID amount = Inr (nb, w1)"
    and w': "w' = CreateTx w1 \<lparr>leAccountID = accountID, leTaskID = Some taskID,
                     EntryType = CreditEntryEscrowLock, Amount = amount,
                     BalanceAfter = Some nb\<rparr>"
    by (auto simp: LockCredits_def split: sum.splits if_splits)
  from DeductCredits_total [OF assms(1) d] show ?thesis
    by (simp add: w' total_balance_def ledger_sum_def signedAmount_def)
qed

lemma entry_types_distinct:
  "CreditEntryTaskEarning \<noteq> CreditEntryEscrowLock" "CreditEntryPlatformFee \<noteq> CreditEntryEscrowLock"
  "CreditEntryEscrowRelease \<noteq> CreditEntryEscrowLock" "CreditEntryRefund \<noteq> CreditEntryEscrowLock"
  by (simp_all add: CreditEntryTaskEarning_def CreditEntryEscrowLock_def CreditEntryPlatformFee_def
      CreditEntryEscrowRelease_def CreditEntryRefund_def)

lemma SettleError_invariant:
  assumes "distinct (map acID (accounts w))" and "SettleError w taskID requesterID budget = (w', err)"
  shows "total_balance w' - ledger_sum w' = total_balance w - ledger_sum w
     \<and> map acID (accounts w') = map acID (accounts w)"
proof (cases "budget \<le> 0 \<or> isl (GetByIDForUpdate w requesterID) \<or> isl (AddCredits w requesterID budget)")
  case True
  with assms(2) have "w' = w"
    by (auto simp: SettleError_def split: sum.splits if_splits)
  then show ?thesis by simp
next
  case False
  then obtain nb w1 where a: "AddCredits w requesterID budget = Inr (nb, w1)"
    by (cases "AddCredits w requesterID budget") auto
  with False assms(2) have w': "w' = CreateTx w1 \<lparr>leAccountID = requesterID, leTaskID = Some taskID,
                      EntryType = CreditEntryRefund, Amount = budget,
                      BalanceAfter = Some nb\<rparr>"
    by (auto simp: SettleError_def split: sum.splits if_splits)
  show ?thesis unfolding w'
    by (rule credit_step [OF assms(1) a]) (simp_all add: entry_types_distinct)
qed


lemma SettleTask_invariant:
  assumes d: "distinct (map acID (accounts w))"
    and s: "SettleTask w taskID requesterID workerID budget actualCost = (w', err)"
  shows "total_balance w' - ledger_sum w' = total_balance w - ledger_sum w
     \<and> map acID (accounts w') = map acID (accounts w)"
proof -
  define fee where "fee = go_quo (go_int (actualCost * 10)) 100"
  define earn where "earn = go_int (actualCost - fee)"
  define rem where "rem = (if go_int (budget - actualCost) < 0 then 0 else go_int (budget - actualCost))"
  note s' = s [unfolded SettleTask_def Let_def, folded fee_def, folded earn_def rem_def]
  show ?thesis
  proof (cases "lockAll w (sort [requesterID, workerID, SystemPlatformAccountID])")
    case (Some e)
    with s' show ?thesis by simp
  next
    case None
    note lock = this
    show ?thesis
    proof (cases "AddCredits w workerID earn")
      case (Inl e)
      with s' lock show ?thesis by simp
    next
      case (Inr p1)
      then obtain nw w1 where a1: "AddCredits w workerID earn = Inr (nw, w1)" by (cases p1) auto
      define w2 where "w2 = CreateTx w1 \<lparr>leAccountID = workerID, leTaskID = Some taskID,
                           EntryType = CreditEntryTaskEarning, Amount = earn,
                           BalanceAfter = Some nw\<rparr>"
      have i2: "total_balance w2 - ledger_sum w2 = total_balance w - ledger_sum w
          \<and> map acID (accounts w2) = map acID (accounts w)"
        unfolding w2_def by (rule credit_step [OF d a1]) (simp_all add: entry_types_distinct)
      with d have d2: "distinct (map acID (accounts w2))" by simp
      show ?thesis
      proof (cases "AddCredits w2 SystemPlatformAccountID fee")
        case (Inl e)
        with s' lock a1 have "w' = w2" by (simp add: w2_def)
        with i2 show ?thesis by simp
      next
        case (Inr p3)
        then obtain np w3 where a3: "AddCredits w2 SystemPlatformAccountID fee = Inr (np, w3)"
          by (cases p3) auto
        define w4 where "w4 = CreateTx w3 \<lparr>leAccountID = SystemPlatformAccountID, leTaskID = Some taskID,
                                EntryType = CreditEntryPlatformFee, Amount = fee,
                                BalanceAfter = Some np\<rparr>"
        have i4: "total_balance w4 - ledger_sum w4 = total_balance w2 - ledger_sum w2
            \<and> map acID (accounts w4) = map acID (accounts w2)"
          unfolding w4_def by (rule credit_step [OF d2 a3]) (simp_all add: entry_types_distinct)
        with d2 have d4: "distinct (map acID (accounts w4))" by simp
        show ?thesis
        proof (cases "0 < rem")
          case False
          with s' lock a1 a3 have "w' = w4" by (simp add: w2_def w4_def)
          with i2 i4 show ?thesis by simp
        next
          case True
          show ?thesis
          proof (cases "AddCredits w4 requesterID rem")
            case (Inl e)
            with s' lock a1 a3 True have "w' = w4" by (simp add: w2_def w4_def)
            with i2 i4 show ?thesis by simp
          next
            case (Inr p5)
            then obtain nr w5 where a5: "AddCredits w4 requesterID rem = Inr (nr, w5)"
              by (cases p5) auto
            define w6 where "w6 = CreateTx w5 \<lparr>leAccountID = requesterID, leTaskID = Some taskID,
                               EntryType = CreditEntryEscrowRelease, Amount = rem,
                               BalanceAfter = Some nr\<rparr>"
            have i6: "total_balance w6 - ledger_sum w6 = total_balance w4 - ledger_sum w4
                \<and> map acID (accounts w6) = map acID (accounts w4)"
              unfolding w6_def by (rule credit_step [OF d4 a5]) (simp_all add: entry_types_distinct)
            from s' lock a1 a3 True a5 have "w' = w6" by (simp add: w2_def w4_def w6_def)
            with i2 i4 i6 show ?thesis by simp
          qed
        qed
      qed
    qed
  qed
qed

lemma apply_op_invariant:
  assumes "distinct (map acID (accounts w))"
  shows "total_balance (apply_op w x) - ledger_sum (apply_op w x) = total_balance w - ledger_sum w
     \<and> map acID (accounts (apply_op w x)) = map acID (accounts w)"
proof (cases x)
  case (Lock a t n)
  then show ?thesis
    using LockCredits_invariant [OF assms, of a t n] by (simp add: prod_eq_iff)
next
  case (Settle t r k b c)
  then show ?thesis
    using SettleTask_invariant [OF assms, of t r k b c] by (simp add: prod_eq_iff)
next
  case (Refund t r b)
  then show ?thesis
    using SettleError_invariant [OF assms, of t r b] by (simp add: prod_eq_iff RefundFailed_def)
qed

lemma run_ops_invariant:
  "distinct (map acID (accounts w)) \<Longrightarrow>
   total_balance (run_ops w ops) - ledger_sum (run_ops w ops) = total_balance w - ledger_sum w
     \<and> map acID (accounts (run_ops w ops)) = map acID (accounts w)"
proof (induction ops arbitrary: w)
  case Nil
  then show ?case by simp
next
  case (Cons x ops)
  from apply_op_invariant [OF Cons.prems, of x]
  have a: "total_balance (apply_op w x) - ledger_sum (apply_op w x) = total_balance w - ledger_sum w"
    and i: "map acID (accounts (apply_op w x)) = map acID (accounts w)" by simp_all
  from i Cons.prems have "distinct (map acID (accounts (apply_op w x)))" by simp
  from Cons.IH [OF this] a i show ?case by simp
qed


lemma LockCredits_success:
  assumes "GetByIDForUpdate w accountID = Inr acc" and "amount \<le> CreditBalance acc"
  shows "\<exists>w1. LockCredits w accountID taskID amount = (w1, None)
     \<and> credit_ledger w1 = credit_ledger w @
           [\<lparr>leAccountID = accountID, leTaskID = Some taskID, EntryType = CreditEntryEscrowLock,
             Amount = amount, BalanceAfter = Some (CreditBalance acc - amount)\<rparr>]
     \<and> (\<forall>x. isl (GetByIDForUpdate w1 x) = isl (GetByIDForUpdate w x))"
proof -
  let ?f = "\<lambda>a. if acID a = accountID \<and> amount \<le> CreditBalance a
          then a\<lparr>CreditBalance := CreditBalance a - amount\<rparr> else a"
  from DeductCredits_first [OF assms] obtain w1 where
    d: "DeductCredits w accountID amount = Inr (CreditBalance acc - amount, w1)"
    and l: "credit_ledger w1 = credit_ledger w"
    and a: "accounts w1 = map ?f (accounts w)"
    by blast
  have "filter (\<lambda>a. acID a = x) (map ?f (accounts w)) = map ?f (filter (\<lambda>a. acID a = x) (accounts w))" for x
    by (rule filter_map_same) simp
  then have i: "isl (GetByIDForUpdate w1 x) = isl (GetByIDForUpdate w x)" for x
    by (cases "filter (\<lambda>a. acID a = x) (accounts w)") (simp_all add: GetByIDForUpdate_def a)
  show ?thesis using assms d l i by (simp add: LockCredits_def)
qed

lemma SettleError_success:
  assumes "GetByIDForUpdate w requesterID = Inr ra" and "0 < budget"
  shows "\<exists>w1. SettleError w taskID requesterID budget = (w1, None)
     \<and> credit_ledger w1 = credit_ledger w @
           [\<lparr>leAccountID = requesterID, leTaskID = Some taskID, EntryType = CreditEntryRefund,
             Amount = budget, BalanceAfter = Some (CreditBalance ra + budget)\<rparr>]
     \<and> (\<forall>x. balance_of w1 x = balance_of w x + (if x = requesterID then budget else 0))
     \<and> tasks w1 = tasks w \<and> agents w1 = agents w
     \<and> http_posts w1 = http_posts w \<and> monitors w1 = monitors w"
proof -
  from AddCredits_effect [OF assms(1), of budget] obtain w1 where
    "AddCredits w requesterID budget = Inr (balance_of w requesterID + budget, w1)"
    "credit_ledger w1 = credit_ledger w"
    "\<And>x. balance_of w1 x = balance_of w x + (if x = requesterID then budget else 0)"
    "tasks w1 = tasks w" "agents w1 = agents w" "http_posts w1 = http_posts w" "monitors w1 = monitors w"
    by blast
  then show ?thesis using assms by (simp add: SettleError_def balance_of_def)
qed

text \<open>
  Claim C1 (credit conservation), as the code has it. The sum of all balances is not
  conserved by each operation: \<open>LockCredits\<close> debits the requester and credits no account,
  the locked credits are held by the ledger entry alone. For any sequence of lock, settle and
  refund operations on a store with unique account ids, the sum of all balances changes by
  exactly the signed sum of the ledger entries written (a lock counts negative, every other
  entry positive). In particular the sum is the same as before after a lock of \<open>B\<close>
  followed by the settlement of the same budget with a cost \<open>0 \<le> C \<le> B\<close>, and after a
  lock of \<open>B \<ge> 0\<close> followed by its refund.
\<close>

theorem credit_conservation:
  assumes "distinct (map acID (accounts w))"
  shows "total_balance (run_ops w ops) = total_balance w + (ledger_sum (run_ops w ops) - ledger_sum w)
    \<and> (GetByIDForUpdate w requesterID = Inr ra \<and> GetByIDForUpdate w workerID = Inr wa
         \<and> GetByIDForUpdate w SystemPlatformAccountID = Inr pa
         \<and> 0 \<le> C \<and> C \<le> B \<and> B \<le> CreditBalance ra \<and> B \<le> MaxInt64 \<and> C * 10 \<le> MaxInt64
       \<longrightarrow> total_balance (run_ops w [Lock requesterID taskID B,
                                     Settle taskID requesterID workerID B C]) = total_balance w)
    \<and> (GetByIDForUpdate w requesterID = Inr ra \<and> 0 \<le> B \<and> B \<le> CreditBalance ra
       \<longrightarrow> total_balance (run_ops w [Lock requesterID taskID B,
                                     Refund taskID requesterID B]) = total_balance w)"
proof (intro conjI impI)
  show "total_balance (run_ops w ops) = total_balance w + (ledger_sum (run_ops w ops) - ledger_sum w)"
    using run_ops_invariant [OF assms, of ops] by simp
next
  assume h: "GetByIDForUpdate w requesterID = Inr ra \<and> GetByIDForUpdate w workerID = Inr wa
         \<and> GetByIDForUpdate w SystemPlatformAccountID = Inr pa
         \<and> 0 \<le> C \<and> C \<le> B \<and> B \<le> CreditBalance ra \<and> B \<le> MaxInt64 \<and> C * 10 \<le> MaxInt64"
  let ?ops = "[Lock requesterID taskID B, Settle taskID requesterID workerID B C]"
  from h LockCredits_success [of w requesterID ra B taskID] obtain w1 where
    l: "LockCredits w requesterID taskID B = (w1, None)"
    and l1: "credit_ledger w1 = credit_ledger w @
           [\<lparr>leAccountID = requesterID, leTaskID = Some taskID, EntryType = CreditEntryEscrowLock,
             Amount = B, BalanceAfter = Some (CreditBalance ra - B)\<rparr>]"
    and i1: "\<And>x. isl (GetByIDForUpdate w1 x) = isl (GetByIDForUpdate w x)"
    by blast
  from h have c: "0 \<le> C" "C \<le> B" "B \<le> MaxInt64" "C * 10 \<le> MaxInt64" by simp_all
  have fee: "go_quo (go_int (C * 10)) 100 = C * 10 div 100"
    using c by (intro go_fee_in_range) simp_all
  have f2: "C * 10 div 100 \<le> C" "0 \<le> C * 10 div 100" using c(1) fee_le [of C] by simp_all
  have earn: "go_int (C - C * 10 div 100) = C - C * 10 div 100"
    using f2 c by (intro go_int_id) simp_all
  have rem: "go_int (B - C) = B - C"
    using c by (intro go_int_id) simp_all
  from SettleTask_effect [of w1 requesterID workerID taskID B C] h i1
  obtain w2 where s: "SettleTask w1 taskID requesterID workerID B C = (w2, None)"
    and l2: "ledger_sum w2 = ledger_sum w1 + (C - C * 10 div 100) + C * 10 div 100 + (B - C)"
    unfolding fee earn rem
    by (auto simp: ledger_sum_def signedAmount_def entry_types_distinct)
  have r: "run_ops w ?ops = w2" using l s by simp
  have "ledger_sum w2 = ledger_sum w" using l2 l1 by (simp add: ledger_sum_def signedAmount_def)
  then show "total_balance (run_ops w ?ops) = total_balance w"
    using run_ops_invariant [OF assms, of ?ops] unfolding r by simp
next
  assume h: "GetByIDForUpdate w requesterID = Inr ra \<and> 0 \<le> B \<and> B \<le> CreditBalance ra"
  let ?ops = "[Lock requesterID taskID B, Refund taskID requesterID B]"
  from h LockCredits_success [of w requesterID ra B taskID] obtain w1 where
    l: "LockCredits w requesterID taskID B = (w1, None)"
    and l1: "credit_ledger w1 = credit_ledger w @
           [\<lparr>leAccountID = requesterID, leTaskID = Some taskID, EntryType = CreditEntryEscrowLock,
             Amount = B, BalanceAfter = Some (CreditBalance ra - B)\<rparr>]"
    and i1: "\<And>x. isl (GetByIDForUpdate w1 x) = isl (GetByIDForUpdate w x)"
    by blast
  have "ledger_sum (run_ops w ?ops) = ledger_sum w"
  proof (cases "B = 0")
    case True
    then show ?thesis using l l1
      by (simp add: RefundFailed_def SettleError_def ledger_sum_def signedAmount_def)
  next
    case False
    with h have pos: "0 < B" by simp
    from h i1 [of requesterID] obtain ra1 where "GetByIDForUpdate w1 requesterID = Inr ra1"
      using not_isl_Inr [of "GetByIDForUpdate w1 requesterID"] by auto
    from SettleError_success [OF this pos, of taskID] obtain w2 where
      "SettleError w1 taskID requesterID B = (w2, None)"
      "ledger_sum w2 = ledger_sum w1 + B"
      by (auto simp: ledger_sum_def signedAmount_def entry_types_distinct)
    then show ?thesis using l l1
      by (simp add: RefundFailed_def ledger_sum_def signedAmount_def)
  qed
  then show "total_balance (run_ops w ?ops) = total_balance w"
    using run_ops_invariant [OF assms, of ?ops] by simp
qed

theorem credit_conservation_witness:
  "total_balance (run_ops example_world [Lock 10 300 50, Settle 300 10 20 50 40]) = 1590
   \<and> total_balance (run_ops example_world [Lock 10 300 50, Refund 300 10 50]) = 1590
   \<and> total_balance (run_ops example_world [Lock 10 300 50])
       = 1590 + (ledger_sum (run_ops example_world [Lock 10 300 50]) - (- 110))"
proof -
  have d: "distinct (map acID (accounts example_world))" by (simp add: example_defs)
  have r: "GetByIDForUpdate example_world 10 = Inr (acct 10 890)"
    and wk: "GetByIDForUpdate example_world 20 = Inr (acct 20 200)"
    and p: "GetByIDForUpdate example_world SystemPlatformAccountID
       = Inr \<lparr>acID = SystemPlatformAccountID, CreditBalance = 0, IsSystemAccount = True\<rparr>"
    by (simp_all add: GetByIDForUpdate_def example_defs)
  have t: "total_balance example_world = 1590" "ledger_sum example_world = - 110"
    by (simp_all add: total_balance_def ledger_sum_def signedAmount_def example_defs
        CreditEntryEscrowLock_def)
  from credit_conservation [OF d, of "[Lock 10 300 50]" 10 "acct 10 890" 20 "acct 20 200"
      "\<lparr>acID = SystemPlatformAccountID, CreditBalance = 0, IsSystemAccount = True\<rparr>" 40 50 300]
    r wk p t
  show ?thesis by (simp add: acct_def MaxInt64_def)
qed

text \<open>
  The claim as stated fails on a single lock: 50 credits leave account 10 and reach no
  other account.
\<close>

theorem credit_conservation_counterexample:
  "total_balance (run_ops example_world [Lock 10 300 50]) \<noteq> total_balance example_world"
  by (simp add: total_balance_def LockCredits_def GetByIDForUpdate_def DeductCredits_def
      CreateTx_def example_defs)

section \<open>Properties of the task API\<close>

lemma status_names_distinct:
  "TaskOutputStatusSuccess \<noteq> []" "TaskOutputStatusSuccess \<noteq> TaskOutputStatusPartial"
  "TaskOutputStatusSuccess \<noteq> TaskOutputStatusError" "TaskOutputStatusPartial \<noteq> TaskOutputStatusError"
  "TaskStatusInProgress \<noteq> TaskStatusFailed" "TaskStatusInProgress \<noteq> TaskStatusCompleted"
  "TaskStatusInProgress \<noteq> TaskStatusDispatched" "TaskStatusInProgress \<noteq> TaskStatusMatching"
  "TaskStatusDispatched \<noteq> TaskStatusFailed" "TaskStatusDispatched \<noteq> TaskStatusCompleted"
  "TaskStatusDispatched \<noteq> TaskStatusMatching" "TaskStatusFailed \<noteq> TaskStatusCompleted"
  "TaskStatusFailed \<noteq> TaskStatusMatching" "TaskStatusCompleted \<noteq> TaskStatusMatching"
  by (simp_all add: TaskOutputStatusSuccess_def TaskOutputStatusPartial_def TaskOutputStatusError_def
      TaskStatusInProgress_def TaskStatusFailed_def TaskStatusCompleted_def TaskStatusDispatched_def
      TaskStatusMatching_def)

subsection \<open>Task rows\<close>

lemma TaskRepo_Update_fields:
  "accounts (TaskRepo_Update w t) = accounts w"
  "credit_ledger (TaskRepo_Update w t) = credit_ledger w"
  "agents (TaskRepo_Update w t) = agents w"
  "http_posts (TaskRepo_Update w t) = http_posts w"
  "monitors (TaskRepo_Update w t) = monitors w"
  by (simp_all add: TaskRepo_Update_def)

lemma TaskRepo_Update_reads:
  "GetByIDForUpdate (TaskRepo_Update w t) x = GetByIDForUpdate w x"
  "balance_of (TaskRepo_Update w t) x = balance_of w x"
  "resolveAccountID (TaskRepo_Update w t) a = resolveAccountID w a"
  "FindAvailableWorkers (TaskRepo_Update w t) c = FindAvailableWorkers w c"
  by (simp_all add: GetByIDForUpdate_def balance_of_def resolveAccountID_def AgentRepo_GetByID_def
      FindAvailableWorkers_def TaskRepo_Update_fields)

lemma TaskRepo_GetByID_tasks:
  "tasks w' = tasks w \<Longrightarrow> TaskRepo_GetByID w' x = TaskRepo_GetByID w x"
  by (simp add: TaskRepo_GetByID_def)

lemma TaskRepo_GetByID_Update:
  assumes "TaskRepo_GetByID w (tID t) = Inr t0"
  shows "TaskRepo_GetByID (TaskRepo_Update w t) (tID t) = Inr (t\<lparr>RoutingPreference := []\<rparr>)"
proof -
  let ?f = "\<lambda>r. if tID r = tID t then t\<lparr>RoutingPreference := []\<rparr> else r"
  from assms obtain r rest where f: "filter (\<lambda>r. tID r = tID t) (tasks w) = r # rest"
    by (auto simp: TaskRepo_GetByID_def split: list.splits)
  then have "tID r = tID t" using filter_hd_in by fastforce
  moreover have "filter (\<lambda>r. tID r = tID t) (map ?f (tasks w)) = map ?f (filter (\<lambda>r. tID r = tID t) (tasks w))"
    by (rule filter_map_same) simp
  ultimately show ?thesis using f by (simp add: TaskRepo_GetByID_def TaskRepo_Update_def)
qed

lemma TaskRepo_GetByID_tID: "TaskRepo_GetByID w taskID = Inr task \<Longrightarrow> tID task = taskID"
  by (auto simp: TaskRepo_GetByID_def split: list.splits dest: filter_hd_in)

subsection \<open>The example callbacks\<close>

lemma ex_task100: "TaskRepo_GetByID example_world 100 = Inr task100"
  by (simp add: TaskRepo_GetByID_def example_defs)

lemma ex_resolve:
  "resolveAccountID example_world 11 = Inr 10" "resolveAccountID example_world 21 = Inr 20"
  by (simp_all add: resolveAccountID_def AgentRepo_GetByID_def example_defs)

lemma ex_task100_fields:
  "WorkerAgentID task100 = Some 21" "Status task100 = TaskStatusInProgress"
  "RequesterAgentID task100 = 11" "Budget task100 = 100" "tID task100 = 100"
  "agID worker21 = 21" "agID worker31 = 31"
  by (simp_all add: task100_def worker21_def worker31_def TaskStatusInProgress_def)

lemma ex_settle:
  "SettleTask example_world 100 10 20 100 150 = (paid 135 15 0, None)"
  "SettleTask example_world 100 10 20 100 80 = (paid 72 8 20, None)"
  by (simp_all add: SettleTask_def AddCredits_def CreateTx_def GetByIDForUpdate_def go_int_def
      go_quo_def Let_def example_defs paid_def)

lemma ex_submit_150:
  "SubmitResult example_world (callback worker21 100 ''success'' 150)
   = (TaskRepo_Update (paid 135 15 0)
        (task100\<lparr>OutputPayload := Decoded [], OutputStatus := ''success'', ActualCost := Some 150,
           PlatformFee := Some 15, Status := ''completed''\<rparr>),
      (200, ResultBody 100 ''completed''))"
  by (simp add: SubmitResult_def callback_def ex_task100 ex_resolve ex_task100_fields ex_settle
      Let_def go_int_def go_quo_def status_names_distinct
      TaskOutputStatusSuccess_def TaskStatusCompleted_def)

lemma ex_submit_80:
  "SubmitResult example_world (callback worker21 100 ''success'' 80)
   = (TaskRepo_Update (paid 72 8 20)
        (task100\<lparr>OutputPayload := Decoded [], OutputStatus := ''success'', ActualCost := Some 80,
           PlatformFee := Some 8, Status := ''completed''\<rparr>),
      (200, ResultBody 100 ''completed''))"
  by (simp add: SubmitResult_def callback_def ex_task100 ex_resolve ex_task100_fields ex_settle
      Let_def go_int_def go_quo_def status_names_distinct
      TaskOutputStatusSuccess_def TaskStatusCompleted_def)

lemma ex_settled_task100:
  "TaskRepo_GetByID settled_world 100
   = Inr (task100\<lparr>OutputPayload := Decoded [], OutputStatus := ''success'', ActualCost := Some 80,
           PlatformFee := Some 8, Status := ''completed''\<rparr>)"
  unfolding settled_world_def ex_submit_80
  by (simp add: TaskRepo_GetByID_def TaskRepo_Update_def paid_def example_defs)

subsection \<open>SubmitResult\<close>

text \<open>
  A body that omits \<open>output_status\<close>, or gives the empty string, is handled as the same
  body with \<open>output_status = success\<close>, whatever the store and the rest of the request.
\<close>

lemma SubmitResult_empty_status_eq:
  "SubmitResult w (r\<lparr>reqBody := Some (req\<lparr>reqOutputStatus := []\<rparr>)\<rparr>)
   = SubmitResult w (r\<lparr>reqBody := Some (req\<lparr>reqOutputStatus := TaskOutputStatusSuccess\<rparr>)\<rparr>)"
  by (simp add: SubmitResult_def Let_def status_names_distinct split: option.split sum.split)

text \<open>
  Claim C10 (an omitted status is a success). The assigned worker of a task that is
  dispatched or in progress sends its callback without \<open>output_status\<close>; the requester's,
  the worker's and the platform's accounts exist. Then the callback has the result of the
  same callback with \<open>output_status = success\<close>, and that result is a settlement:
  \<open>SettleTask\<close> runs on the task's budget and the effective cost without error, the
  response is 200 with status \<open>completed\<close>, the stored task row is completed with output
  status \<open>success\<close>, the worker account is credited the earning, the platform account the
  fee and the requester account the remainder, and the ledger gains a \<open>task_earning\<close> and
  a \<open>platform_fee\<close> entry for the task, followed by an \<open>escrow_release\<close> entry when a
  remainder is left. For an effective cost of at least 1 whose tenfold fits Go's \<open>int\<close>,
  the fee is \<open>floor (cost * 10 / 100)\<close> and the earning, cost minus fee, is positive: the
  worker is paid.
\<close>

theorem SubmitResult_empty_status_is_success:
  fixes w :: world and r :: request and req :: taskResultRequest and task :: Task
    and callingAgent :: Agent and taskID requesterAccount workerAccount :: uuid
  assumes "pathID r = Some taskID"
    and "TaskRepo_GetByID w taskID = Inr task"
    and "Status task = TaskStatusInProgress \<or> Status task = TaskStatusDispatched"
    and "ctxAgent r = Some callingAgent"
    and "WorkerAgentID task = Some (agID callingAgent)"
    and "reqBody r = Some req"
    and "reqOutputStatus req = []"
    and "resolveAccountID w (RequesterAgentID task) = Inr requesterAccount"
    and "resolveAccountID w (agID callingAgent) = Inr workerAccount"
    and "GetByIDForUpdate w requesterAccount = Inr ra"
    and "GetByIDForUpdate w workerAccount = Inr wa"
    and "GetByIDForUpdate w SystemPlatformAccountID = Inr pa"
  defines "cost \<equiv> (if reqActualCost req \<le> 0 then Budget task else reqActualCost req)"
  defines "fee \<equiv> go_quo (go_int (cost * 10)) 100"
  defines "earn \<equiv> go_int (cost - fee)"
  defines "rem \<equiv> (if go_int (Budget task - cost) < 0 then 0 else go_int (Budget task - cost))"
  defines "task' \<equiv> task\<lparr>OutputPayload := reqOutputPayload req,
                         OutputStatus := TaskOutputStatusSuccess,
                         ActualCost := Some (reqActualCost req),
                         PlatformFee := Some fee,
                         Status := TaskStatusCompleted\<rparr>"
  shows "SubmitResult w r
           = SubmitResult w (r\<lparr>reqBody := Some (req\<lparr>reqOutputStatus := TaskOutputStatusSuccess\<rparr>)\<rparr>)
     \<and> SettleTask w taskID requesterAccount workerAccount (Budget task) cost
           = (fst (SettleTask w taskID requesterAccount workerAccount (Budget task) cost), None)
     \<and> SubmitResult w r
           = (TaskRepo_Update
                (fst (SettleTask w taskID requesterAccount workerAccount (Budget task) cost)) task',
              (200, ResultBody taskID TaskStatusCompleted))
     \<and> TaskRepo_GetByID (fst (SubmitResult w r)) taskID = Inr (task'\<lparr>RoutingPreference := []\<rparr>)
     \<and> (\<forall>x. balance_of (fst (SubmitResult w r)) x
              = balance_of w x + (if x = workerAccount then earn else 0)
                + (if x = SystemPlatformAccountID then fee else 0)
                + (if x = requesterAccount then rem else 0))
     \<and> map (\<lambda>e. (leAccountID e, leTaskID e, EntryType e, Amount e))
          (drop (length (credit_ledger w)) (credit_ledger (fst (SubmitResult w r))))
        = [(workerAccount, Some taskID, CreditEntryTaskEarning, earn),
           (SystemPlatformAccountID, Some taskID, CreditEntryPlatformFee, fee)]
          @ (if 0 < rem then [(requesterAccount, Some taskID, CreditEntryEscrowRelease, rem)]
             else [])
     \<and> (1 \<le> cost \<and> cost * 10 \<le> MaxInt64 \<longrightarrow>
           fee = cost * 10 div 100 \<and> earn = cost - cost * 10 div 100 \<and> 0 < earn)"
proof -
  have tid: "tID task = taskID" using assms(2) by (rule TaskRepo_GetByID_tID)
  let ?S = "SettleTask w taskID requesterAccount workerAccount (Budget task) cost"
  from SettleTask_effect [of w requesterAccount workerAccount taskID "Budget task" cost]
    assms(10,11,12)
  obtain w1 where s: "?S = (w1, None)"
    and b: "\<And>x. balance_of w1 x = balance_of w x + (if x = workerAccount then earn else 0)
              + (if x = SystemPlatformAccountID then fee else 0)
              + (if x = requesterAccount then rem else 0)"
    and l: "credit_ledger w1 = credit_ledger w @
          [\<lparr>leAccountID = workerAccount, leTaskID = Some taskID, EntryType = CreditEntryTaskEarning,
            Amount = earn, BalanceAfter = Some (balance_of w workerAccount + earn)\<rparr>,
           \<lparr>leAccountID = SystemPlatformAccountID, leTaskID = Some taskID,
            EntryType = CreditEntryPlatformFee, Amount = fee,
            BalanceAfter = Some (balance_of w SystemPlatformAccountID
               + (if SystemPlatformAccountID = workerAccount then earn else 0) + fee)\<rparr>]
          @ (if 0 < rem then
               [\<lparr>leAccountID = requesterAccount, leTaskID = Some taskID,
                 EntryType = CreditEntryEscrowRelease, Amount = rem,
                 BalanceAfter = Some (balance_of w requesterAccount
                   + (if requesterAccount = workerAccount then earn else 0)
                   + (if requesterAccount = SystemPlatformAccountID then fee else 0) + rem)\<rparr>]
             else [])"
    and t: "tasks w1 = tasks w"
    unfolding fee_def earn_def rem_def by auto
  have st: "\<not> (Status task \<noteq> TaskStatusInProgress \<and> Status task \<noteq> TaskStatusDispatched)"
    using assms(3) by blast
  have run: "SubmitResult w r = (TaskRepo_Update w1 task', (200, ResultBody taskID TaskStatusCompleted))"
    using assms(1,2,4-9) st s
    by (cases "reqActualCost req \<le> 0")
      (simp_all add: SubmitResult_def Let_def status_names_distinct tid task'_def fee_def cost_def)
  have eq: "SubmitResult w r
      = SubmitResult w (r\<lparr>reqBody := Some (req\<lparr>reqOutputStatus := TaskOutputStatusSuccess\<rparr>)\<rparr>)"
  proof -
    have "r = r\<lparr>reqBody := Some (req\<lparr>reqOutputStatus := []\<rparr>)\<rparr>" using assms(6,7) by simp
    then show ?thesis using SubmitResult_empty_status_eq [where w = w and r = r and req = req] by simp
  qed
  have tid': "tID task' = taskID" by (simp add: task'_def tid)
  have "TaskRepo_GetByID w1 (tID task') = Inr task"
    using assms(2) TaskRepo_GetByID_tasks [OF t, of taskID] by (simp add: tid')
  then have row: "TaskRepo_GetByID (TaskRepo_Update w1 task') taskID = Inr (task'\<lparr>RoutingPreference := []\<rparr>)"
    using TaskRepo_GetByID_Update [of w1 task' task] by (simp add: tid')
  have ar: "fee = cost * 10 div 100 \<and> earn = cost - cost * 10 div 100 \<and> 0 < earn"
    if c: "1 \<le> cost" "cost * 10 \<le> MaxInt64"
  proof -
    have f: "fee = cost * 10 div 100" unfolding fee_def using c by (intro go_fee_in_range) simp_all
    have f2: "cost * 10 div 100 \<le> cost" "0 \<le> cost * 10 div 100" using c(1) fee_le [of cost] by simp_all
    have "cost \<le> MaxInt64" using c by linarith
    then have e: "earn = cost - cost * 10 div 100"
      unfolding earn_def f using f2 c(1) by (intro go_int_id) simp_all
    have "0 < cost - cost * 10 div 100" using c(1) by linarith
    with f e show ?thesis by simp
  qed
  have c2: "?S = (fst ?S, None)" using s by simp
  have c3: "SubmitResult w r
      = (TaskRepo_Update (fst ?S) task', (200, ResultBody taskID TaskStatusCompleted))"
    using run s by simp
  have c4: "TaskRepo_GetByID (fst (SubmitResult w r)) taskID = Inr (task'\<lparr>RoutingPreference := []\<rparr>)"
    unfolding run using row by simp
  have c5: "\<forall>x. balance_of (fst (SubmitResult w r)) x
              = balance_of w x + (if x = workerAccount then earn else 0)
                + (if x = SystemPlatformAccountID then fee else 0)
                + (if x = requesterAccount then rem else 0)"
    unfolding run using b by (simp add: TaskRepo_Update_reads)
  have c6: "map (\<lambda>e. (leAccountID e, leTaskID e, EntryType e, Amount e))
          (drop (length (credit_ledger w)) (credit_ledger (fst (SubmitResult w r))))
        = [(workerAccount, Some taskID, CreditEntryTaskEarning, earn),
           (SystemPlatformAccountID, Some taskID, CreditEntryPlatformFee, fee)]
          @ (if 0 < rem then [(requesterAccount, Some taskID, CreditEntryEscrowRelease, rem)]
             else [])"
    unfolding run by (simp add: l TaskRepo_Update_fields)
  have c7: "1 \<le> cost \<and> cost * 10 \<le> MaxInt64 \<longrightarrow>
           fee = cost * 10 div 100 \<and> earn = cost - cost * 10 div 100 \<and> 0 < earn"
    using ar by blast
  show ?thesis by (intro conjI; fact)
qed


theorem SubmitResult_empty_status_is_success_witness:
  "SubmitResult example_world (callback worker21 100 [] 80)
     = SubmitResult example_world (callback worker21 100 ''success'' 80)
   \<and> snd (SubmitResult example_world (callback worker21 100 [] 80))
     = (200, ResultBody 100 ''completed'')
   \<and> balance_of (fst (SubmitResult example_world (callback worker21 100 [] 80))) 20 = 200 + 72
   \<and> map (\<lambda>e. (leAccountID e, leTaskID e, EntryType e, Amount e))
        (drop 2 (credit_ledger (fst (SubmitResult example_world (callback worker21 100 [] 80)))))
     = [(20, Some 100, ''task_earning'', 72), (SystemPlatformAccountID, Some 100, ''platform_fee'', 8),
        (10, Some 100, ''escrow_release'', 20)]
   \<and> map_sum id Status (TaskRepo_GetByID (fst (SubmitResult example_world (callback worker21 100 [] 80))) 100)
     = Inr ''completed''"
proof -
  let ?r = "callback worker21 100 [] 80"
  let ?req = "\<lparr>reqOutputPayload = Decoded [], reqOutputStatus = [], reqActualCost = 80\<rparr>"
  have h: "pathID ?r = Some 100" "ctxAgent ?r = Some worker21" "reqBody ?r = Some ?req"
    "reqOutputStatus ?req = []"
    by (simp_all add: callback_def)
  have st: "Status task100 = TaskStatusInProgress \<or> Status task100 = TaskStatusDispatched"
    by (simp add: ex_task100_fields)
  have wk: "WorkerAgentID task100 = Some (agID worker21)" by (simp add: ex_task100_fields)
  have ra: "resolveAccountID example_world (RequesterAgentID task100) = Inr 10"
    and wa: "resolveAccountID example_world (agID worker21) = Inr 20"
    by (simp_all add: ex_resolve ex_task100_fields)
  have g: "GetByIDForUpdate example_world 10 = Inr (acct 10 890)"
    "GetByIDForUpdate example_world 20 = Inr (acct 20 200)"
    "GetByIDForUpdate example_world SystemPlatformAccountID
       = Inr \<lparr>acID = SystemPlatformAccountID, CreditBalance = 0, IsSystemAccount = True\<rparr>"
    by (simp_all add: GetByIDForUpdate_def example_defs)
  have bal: "balance_of example_world 20 = 200" by (simp add: balance_of_def g acct_def)
  have ne: "SystemPlatformAccountID \<noteq> 20" "SystemPlatformAccountID \<noteq> 10"
    by (simp_all add: SystemPlatformAccountID_def)
  have len: "length (credit_ledger example_world) = 2" by (simp add: example_world_def)
  have r: "go_int (100 - 80) = 20" by (simp add: go_int_def)
  have eq: "?r\<lparr>reqBody := Some (?req\<lparr>reqOutputStatus := TaskOutputStatusSuccess\<rparr>)\<rparr>
      = callback worker21 100 ''success'' 80"
    by (simp add: callback_def TaskOutputStatusSuccess_def)
  have c: "(if reqActualCost ?req \<le> 0 then Budget task100 else reqActualCost ?req) = 80"
    by simp
  note t = SubmitResult_empty_status_is_success [OF h(1) ex_task100 st h(2) wk h(3,4) ra wa g, unfolded c eq]
  note t1 = t [THEN conjunct1]
  note t3 = t [THEN conjunct2, THEN conjunct2, THEN conjunct1]
  note t4 = t [THEN conjunct2, THEN conjunct2, THEN conjunct2, THEN conjunct1]
  note t5 = t [THEN conjunct2, THEN conjunct2, THEN conjunct2, THEN conjunct2, THEN conjunct1]
  note t6 = t [THEN conjunct2, THEN conjunct2, THEN conjunct2, THEN conjunct2, THEN conjunct2,
    THEN conjunct1]
  note t7 = t [THEN conjunct2, THEN conjunct2, THEN conjunct2, THEN conjunct2, THEN conjunct2,
    THEN conjunct2]
  have pre: "(1::int) \<le> 80 \<and> (80::int) * 10 \<le> MaxInt64" by (simp add: MaxInt64_def)
  have v1: "go_quo (go_int (80 * 10)) 100 = 8"
    using t7 [THEN mp, OF pre, THEN conjunct1] by simp
  have v2: "go_int (80 - 8) = 72" "go_int (Budget task100 - 80) = 20"
    by (simp_all add: go_int_def ex_task100_fields)
  have c1: "SubmitResult example_world ?r
      = SubmitResult example_world (callback worker21 100 ''success'' 80)"
    by (rule t1)
  have c3: "snd (SubmitResult example_world ?r) = (200, ResultBody 100 ''completed'')"
    unfolding t3 by (simp add: TaskStatusCompleted_def)
  have c5: "balance_of (fst (SubmitResult example_world ?r)) 20 = 200 + 72"
    using t5 [unfolded v1, unfolded v2, rule_format, of 20] ne by (simp add: bal)
  have c6: "map (\<lambda>e. (leAccountID e, leTaskID e, EntryType e, Amount e))
        (drop 2 (credit_ledger (fst (SubmitResult example_world ?r))))
     = [(20, Some 100, ''task_earning'', 72), (SystemPlatformAccountID, Some 100, ''platform_fee'', 8),
        (10, Some 100, ''escrow_release'', 20)]"
    using t6 [unfolded v1, unfolded v2 len]
    by (simp add: CreditEntryTaskEarning_def CreditEntryPlatformFee_def
        CreditEntryEscrowRelease_def)
  have c4: "map_sum id Status (TaskRepo_GetByID (fst (SubmitResult example_world ?r)) 100)
      = Inr ''completed''"
    unfolding t4 by (simp add: TaskStatusCompleted_def)
  show ?thesis by (intro conjI; fact)
qed

text \<open>
  Claim C3 (the settled cost never exceeds the budget), evaluated where the code departs
  from it. The handler takes the reported cost as the effective cost whenever it is
  positive and nothing bounds it by the budget. A callback that reports a cost of 150 for
  task 100, whose budget of 100 was locked, is settled at 150: the worker account receives
  135 and the platform account 15, the requester receives nothing back, the sum of all
  balances grows by 150, and the completed task row records an actual cost of 150 for a
  budget of 100.
\<close>

theorem SubmitResult_cost_above_budget:
  "snd (SubmitResult example_world (callback worker21 100 ''success'' 150))
     = (200, ResultBody 100 ''completed'')
   \<and> balance_of (fst (SubmitResult example_world (callback worker21 100 ''success'' 150))) 20 = 200 + 135
   \<and> balance_of (fst (SubmitResult example_world (callback worker21 100 ''success'' 150)))
        SystemPlatformAccountID = 0 + 15
   \<and> balance_of (fst (SubmitResult example_world (callback worker21 100 ''success'' 150))) 10 = 890
   \<and> total_balance (fst (SubmitResult example_world (callback worker21 100 ''success'' 150)))
        = total_balance example_world + 150
   \<and> map (\<lambda>t. (tID t, Budget t, ActualCost t, PlatformFee t))
        (tasks (fst (SubmitResult example_world (callback worker21 100 ''success'' 150))))
     = [(200, 10, None, None), (100, 100, Some 150, Some 15)]"
  unfolding ex_submit_150
  by (simp add: TaskRepo_Update_def paid_def balance_of_def total_balance_def GetByIDForUpdate_def
      example_defs)

text \<open>
  Claim C5 (callback authorization), as the code has it. A callback whose calling agent is
  not the assigned worker of the task (no agent in the context, no worker assigned, or a
  different agent) fails and leaves the store, task rows and ledger included, as it was.
  The status is that of the first check that fails, in the order of the handler: 400 for a
  path without a task id, 404 for an unknown task, 409 for a task that is neither
  dispatched nor in progress, and 403 (Forbidden) otherwise.
\<close>

theorem SubmitResult_wrong_caller:
  assumes "\<And>taskID task ca wid.
      \<lbrakk>pathID r = Some taskID; TaskRepo_GetByID w taskID = Inr task;
       ctxAgent r = Some ca; WorkerAgentID task = Some wid\<rbrakk> \<Longrightarrow> agID ca \<noteq> wid"
  shows "SubmitResult w r =
     (w, case pathID r of
           None \<Rightarrow> (400, ErrorBody ''invalid task id'')
         | Some taskID \<Rightarrow>
             (case TaskRepo_GetByID w taskID of
                Inl err \<Rightarrow> (404, ErrorBody ''task not found'')
              | Inr task \<Rightarrow>
                  if Status task \<noteq> TaskStatusInProgress \<and> Status task \<noteq> TaskStatusDispatched
                  then (409, ErrorBody ''task is not in a dispatchable state'')
                  else (403, ErrorBody ''caller is not the assigned worker'')))"
proof (cases "pathID r")
  case None
  then show ?thesis by (simp add: SubmitResult_def)
next
  case (Some taskID)
  note p = this
  show ?thesis
  proof (cases "TaskRepo_GetByID w taskID")
    case (Inl e)
    with p show ?thesis by (simp add: SubmitResult_def)
  next
    case (Inr task)
    have "(case ctxAgent r of
                None \<Rightarrow> True
              | Some callingAgent \<Rightarrow>
                  (case WorkerAgentID task of
                     None \<Rightarrow> True
                   | Some workerAgentID \<Rightarrow> agID callingAgent \<noteq> workerAgentID))"
      using assms [OF p Inr] by (simp split: option.split)
    with p Inr show ?thesis by (simp add: SubmitResult_def)
  qed
qed

theorem SubmitResult_wrong_caller_witness:
  "SubmitResult example_world (callback worker31 100 ''success'' 50)
     = (example_world, (403, ErrorBody ''caller is not the assigned worker''))"
proof -
  have h: "agID ca \<noteq> wid"
    if "pathID (callback worker31 100 ''success'' 50) = Some taskID"
      and "TaskRepo_GetByID example_world taskID = Inr task"
      and "ctxAgent (callback worker31 100 ''success'' 50) = Some ca"
      and "WorkerAgentID task = Some wid"
    for taskID task ca wid
    using that ex_task100 by (auto simp: callback_def ex_task100_fields)
  have "SubmitResult example_world (callback worker31 100 ''success'' 50) =
     (example_world, case pathID (callback worker31 100 ''success'' 50) of
           None \<Rightarrow> (400, ErrorBody ''invalid task id'')
         | Some taskID \<Rightarrow>
             (case TaskRepo_GetByID example_world taskID of
                Inl err \<Rightarrow> (404, ErrorBody ''task not found'')
              | Inr task \<Rightarrow>
                  if Status task \<noteq> TaskStatusInProgress \<and> Status task \<noteq> TaskStatusDispatched
                  then (409, ErrorBody ''task is not in a dispatchable state'')
                  else (403, ErrorBody ''caller is not the assigned worker'')))"
    by (rule SubmitResult_wrong_caller) (rule h)
  then show ?thesis
    by (simp add: callback_def ex_task100 ex_task100_fields)
qed

text \<open>
  The claim as stated fails on a task that is already completed: the callback of an agent
  that is not its worker is answered with 409 (Conflict), not with 403.
\<close>

theorem SubmitResult_wrong_caller_counterexample:
  "SubmitResult settled_world (callback worker31 100 ''success'' 50)
     = (settled_world, (409, ErrorBody ''task is not in a dispatchable state''))"
  by (simp add: SubmitResult_def callback_def ex_settled_task100 TaskStatusInProgress_def
      TaskStatusDispatched_def)

subsection \<open>GetTask\<close>

text \<open>
  Claim C9 (per-account scoping of task reads), evaluated where the code departs from it.
  \<open>GetTask\<close> looks the task up by id alone. Task 100 was created by agent 11 of account
  10; the principal of account 30 (agent 31), who neither owns nor works on it, reads it
  with status 200. The list endpoint, for the same principal, returns no task: it filters by
  the caller's agent.
\<close>

theorem GetTask_not_scoped:
  "GetTask example_world (get_task worker31 100) = (200, TaskBody task100)
   \<and> listTasks example_world (get_task worker31 100) = (200, TaskListBody [])
   \<and> listTasks example_world (get_task requester11 100) = (200, TaskListBody [task200, task100])"
proof (intro conjI)
  show "GetTask example_world (get_task worker31 100) = (200, TaskBody task100)"
    by (simp add: GetTask_def get_task_def ex_task100 task100_def)
  show "listTasks example_world (get_task worker31 100) = (200, TaskListBody [])"
    by (simp add: listTasks_def get_task_def ListByRequesterAgentID_def example_defs)
  show "listTasks example_world (get_task requester11 100) = (200, TaskListBody [task200, task100])"
    by (simp add: listTasks_def get_task_def ListByRequesterAgentID_def example_defs)
qed

section \<open>Properties of the matchmaker\<close>

lemma FindAvailableWorkers_member:
  assumes "a \<in> set (FindAvailableWorkers w capability)"
  shows "a \<in> set (agents w)
     \<and> (Role a = AgentRoleWorker \<or> Role a = AgentRoleBoth)
     \<and> Availability a = AgentAvailabilityOnline
     \<and> (\<exists>ac\<in>set (accounts w). acID ac = agAccountID a \<and> \<not> IsSystemAccount ac)
     \<and> (CapabilitiesOffered a = JNull \<or> jsonb_exists (CapabilitiesOffered a) capability)"
  using assms by (auto simp: FindAvailableWorkers_def split: if_splits)

lemma buildCandidates_member:
  "c \<in> set (buildCandidates workers task excludeID) \<Longrightarrow>
   agent c \<in> set workers \<and> agID (agent c) \<noteq> excludeID
     \<and> getPricingPerTask (CapabilitiesOffered (agent c)) (CapabilityRequired task) \<le> Budget task"
  by (induction workers) (auto simp: Let_def split: if_splits)

lemma scoreAndSort_subset:
  assumes "\<And>lt cs. set (sort_Slice e lt cs) \<subseteq> set cs" and "\<And>cs. set (auto_order e cs) \<subseteq> set cs"
  shows "set (scoreAndSort e candidates task) \<subseteq> set candidates"
  using assms by (simp add: scoreAndSort_def Let_def)

lemma FindBestWorker_candidate:
  assumes "\<And>lt cs. set (sort_Slice e lt cs) \<subseteq> set cs" and "\<And>cs. set (auto_order e cs) \<subseteq> set cs"
    and "FindBestWorker e w task = Some ag"
  shows "\<exists>c\<in>set (buildCandidates (FindAvailableWorkers w (CapabilityRequired task)) task uuid_Nil).
            agent c = ag"
proof -
  let ?cs = "buildCandidates (FindAvailableWorkers w (CapabilityRequired task)) task uuid_Nil"
  from assms(3) obtain c rest where s: "scoreAndSort e ?cs task = c # rest" and a: "agent c = ag"
    by (auto simp: FindBestWorker_def Let_def split: if_splits list.splits)
  from s have "c \<in> set (scoreAndSort e ?cs task)" by simp
  with scoreAndSort_subset [OF assms(1,2)] have "c \<in> set ?cs" by blast
  with a show ?thesis by blast
qed

lemma FindFallbacks_candidate:
  assumes "\<And>lt cs. set (sort_Slice e lt cs) \<subseteq> set cs" and "\<And>cs. set (auto_order e cs) \<subseteq> set cs"
    and "ag \<in> set (FindFallbacks e w task excludeAgentID)"
  shows "\<exists>c\<in>set (buildCandidates (FindAvailableWorkers w (CapabilityRequired task)) task excludeAgentID).
            agent c = ag"
proof -
  let ?cs = "buildCandidates (FindAvailableWorkers w (CapabilityRequired task)) task excludeAgentID"
  from assms(3) obtain c where c: "c \<in> set (take 2 (scoreAndSort e ?cs task))" and a: "agent c = ag"
    by (auto simp: FindFallbacks_def Let_def split: if_splits)
  from c have "c \<in> set (scoreAndSort e ?cs task)" by (rule in_set_takeD)
  with scoreAndSort_subset [OF assms(1,2)] have "c \<in> set ?cs" by blast
  with a show ?thesis by blast
qed

lemma FindFallbacks_agents:
  assumes "\<forall>lt cs. set (sort_Slice e lt cs) \<subseteq> set cs" and "\<forall>cs. set (auto_order e cs) \<subseteq> set cs"
    and "ag \<in> set (FindFallbacks e w task x)"
  shows "ag \<in> set (agents w)"
proof -
  from FindFallbacks_candidate [OF _ _ assms(3)] assms(1,2) obtain c where
    "c \<in> set (buildCandidates (FindAvailableWorkers w (CapabilityRequired task)) task x)"
    "agent c = ag" by blast
  then have "ag \<in> set (FindAvailableWorkers w (CapabilityRequired task))"
    using buildCandidates_member by blast
  then show ?thesis using FindAvailableWorkers_member by blast
qed

lemma FindBestWorker_agents:
  assumes "\<forall>lt cs. set (sort_Slice e lt cs) \<subseteq> set cs" and "\<forall>cs. set (auto_order e cs) \<subseteq> set cs"
    and "FindBestWorker e w task = Some ag"
  shows "ag \<in> set (agents w)"
proof -
  from FindBestWorker_candidate [OF _ _ assms(3)] assms(1,2) obtain c where
    "c \<in> set (buildCandidates (FindAvailableWorkers w (CapabilityRequired task)) task uuid_Nil)"
    "agent c = ag" by blast
  then have "ag \<in> set (FindAvailableWorkers w (CapabilityRequired task))"
    using buildCandidates_member by blast
  then show ?thesis using FindAvailableWorkers_member by blast
qed

lemma insertLeft_set: "set (insertLeft lt x xs) = insert x (set xs)"
  by (induction xs) auto

lemma insertionSort_set: "set (insertionSort lt xs) = set xs"
proof -
  have "set (foldl (\<lambda>pre x. insertLeft lt x pre) acc xs) = set acc \<union> set xs" for acc
    by (induction xs arbitrary: acc) (auto simp: insertLeft_set)
  then show ?thesis by (simp add: insertionSort_def)
qed

lemma ex_candidates:
  "buildCandidates (FindAvailableWorkers example_world ''research'')
     (task200\<lparr>RoutingPreference := ''cheapest''\<rparr>) uuid_Nil
   = [\<lparr>agent = worker31, pricingPerTask = 0, avgResponseMs = 0\<rparr>,
      \<lparr>agent = worker21, pricingPerTask = 5, avgResponseMs = 100\<rparr>]"
  by (simp add: FindAvailableWorkers_def example_defs uuid_Nil_def defaultPriceByCapability_def
      AgentRoleWorker_def AgentRoleBoth_def AgentAvailabilityOnline_def)

lemma ex_best:
  "FindBestWorker (env_status 200) example_world (task200\<lparr>RoutingPreference := ''cheapest''\<rparr>)
   = Some worker31"
proof -
  have c: "CapabilityRequired (task200\<lparr>RoutingPreference := ''cheapest''\<rparr>) = ''research''"
    by (simp add: task200_def)
  show ?thesis
    unfolding FindBestWorker_def Let_def c ex_candidates
    by (simp add: scoreAndSort_def routingPreference_def env_status_def insertionSort_def
        RoutingFastest_def RoutingCheapest_def RoutingAuto_def)
qed

text \<open>
  Claim C8 (the candidate pool of the matchmaker), as the code has it. Every agent that
  \<open>FindBestWorker\<close> returns, and every agent in the list of \<open>FindFallbacks\<close>, is a row of
  the agents table with role worker or both, availability online, an owning account that is
  not a system account, and a \<open>capabilities_offered\<close> that is NULL or contains the
  requested capability: the query admits agents that advertise nothing, and
  \<open>getPricingPerTask\<close> gives them the default price. (Sorting is taken to return elements
  of the slice it was given.)
\<close>

theorem matcher_candidate_pool:
  assumes "\<And>lt cs. set (sort_Slice e lt cs) \<subseteq> set cs" and "\<And>cs. set (auto_order e cs) \<subseteq> set cs"
    and "FindBestWorker e w task = Some ag \<or> ag \<in> set (FindFallbacks e w task excludeAgentID)"
  shows "ag \<in> set (agents w)
     \<and> (Role ag = AgentRoleWorker \<or> Role ag = AgentRoleBoth)
     \<and> Availability ag = AgentAvailabilityOnline
     \<and> (\<exists>ac\<in>set (accounts w). acID ac = agAccountID ag \<and> \<not> IsSystemAccount ac)
     \<and> (CapabilitiesOffered ag = JNull
          \<or> jsonb_exists (CapabilitiesOffered ag) (CapabilityRequired task))"
proof -
  from assms(3) obtain c x where
    "c \<in> set (buildCandidates (FindAvailableWorkers w (CapabilityRequired task)) task x)"
    and "agent c = ag"
    using FindBestWorker_candidate [OF assms(1,2)] FindFallbacks_candidate [OF assms(1,2)]
    by blast
  then have "ag \<in> set (FindAvailableWorkers w (CapabilityRequired task))"
    using buildCandidates_member by blast
  then show ?thesis by (rule FindAvailableWorkers_member)
qed

theorem matcher_candidate_pool_witness:
  "FindBestWorker (env_status 200) example_world (task200\<lparr>RoutingPreference := ''cheapest''\<rparr>)
     = Some worker31
   \<and> worker31 \<in> set (agents example_world)
   \<and> Role worker31 = AgentRoleBoth
   \<and> Availability worker31 = AgentAvailabilityOnline
   \<and> CapabilitiesOffered worker31 = JNull"
proof -
  have s: "set (sort_Slice (env_status 200) lt cs) \<subseteq> set cs" for lt cs
    by (simp add: env_status_def insertionSort_set)
  have a: "set (auto_order (env_status 200) cs) \<subseteq> set cs" for cs
    by (simp add: env_status_def)
  from matcher_candidate_pool [OF s a disjI1 [OF ex_best]]
  show ?thesis by (simp add: ex_best worker31_def AgentRoleBoth_def AgentAvailabilityOnline_def)
qed

text \<open>
  The claim as stated fails on an agent whose \<open>capabilities_offered\<close> is NULL: agent 31
  advertises no capability and is selected for a research task, ahead of agent 21 under the
  cheapest preference because its price is the default price 0.
\<close>

theorem matcher_candidate_pool_counterexample:
  "FindBestWorker (env_status 200) example_world (task200\<lparr>RoutingPreference := ''cheapest''\<rparr>)
     = Some worker31
   \<and> \<not> jsonb_exists (CapabilitiesOffered worker31)
         (CapabilityRequired (task200\<lparr>RoutingPreference := ''cheapest''\<rparr>))"
  by (simp add: ex_best worker31_def)

section \<open>Properties of the dispatcher\<close>

declare TaskRepo_Update_fields [simp] TaskRepo_Update_reads [simp]

lemma http_posts_update_reads [simp]:
  "GetByIDForUpdate (w\<lparr>http_posts := p\<rparr>) x = GetByIDForUpdate w x"
  "balance_of (w\<lparr>http_posts := p\<rparr>) x = balance_of w x"
  "resolveAccountID (w\<lparr>http_posts := p\<rparr>) a = resolveAccountID w a"
  "FindAvailableWorkers (w\<lparr>http_posts := p\<rparr>) c = FindAvailableWorkers w c"
  "TaskRepo_GetByID (w\<lparr>http_posts := p\<rparr>) i = TaskRepo_GetByID w i"
  "TaskRepo_Update (w\<lparr>http_posts := p\<rparr>) t = (TaskRepo_Update w t)\<lparr>http_posts := p\<rparr>"
  by (simp_all add: GetByIDForUpdate_def balance_of_def resolveAccountID_def AgentRepo_GetByID_def
      FindAvailableWorkers_def TaskRepo_GetByID_def TaskRepo_Update_def)

lemma monitors_update_reads [simp]:
  "balance_of (w\<lparr>monitors := m\<rparr>) x = balance_of w x"
  "TaskRepo_GetByID (w\<lparr>monitors := m\<rparr>) i = TaskRepo_GetByID w i"
  by (simp_all add: GetByIDForUpdate_def balance_of_def TaskRepo_GetByID_def)

lemma refundAndFail_result:
  assumes "resolveAccountID w (RequesterAgentID task) = Inr ra"
    and "GetByIDForUpdate w ra = Inr racc" and "0 < Budget task"
  shows "\<exists>w'. refundAndFail w task
            = (w', task\<lparr>Status := TaskStatusFailed, OutputStatus := TaskOutputStatusError\<rparr>, None)
     \<and> credit_ledger w' = credit_ledger w @
           [\<lparr>leAccountID = ra, leTaskID = Some (tID task), EntryType = CreditEntryRefund,
             Amount = Budget task, BalanceAfter = Some (CreditBalance racc + Budget task)\<rparr>]
     \<and> (\<forall>x. balance_of w' x = balance_of w x + (if x = ra then Budget task else 0))
     \<and> tasks w' = tasks (TaskRepo_Update w
                (task\<lparr>Status := TaskStatusFailed, OutputStatus := TaskOutputStatusError\<rparr>))
     \<and> agents w' = agents w \<and> http_posts w' = http_posts w \<and> monitors w' = monitors w"
proof -
  let ?t1 = "task\<lparr>Status := TaskStatusFailed, OutputStatus := TaskOutputStatusError\<rparr>"
  let ?w1 = "TaskRepo_Update w ?t1"
  have r: "resolveAccountID ?w1 (RequesterAgentID ?t1) = Inr ra"
    using assms(1) by simp
  have g: "GetByIDForUpdate ?w1 ra = Inr racc"
    using assms(2) by simp
  from SettleError_success [OF g, of "Budget task" "tID task"] assms(3) obtain w2 where
    s: "SettleError ?w1 (tID task) ra (Budget task) = (w2, None)"
    and l: "credit_ledger w2 = credit_ledger ?w1 @
           [\<lparr>leAccountID = ra, leTaskID = Some (tID task), EntryType = CreditEntryRefund,
             Amount = Budget task, BalanceAfter = Some (CreditBalance racc + Budget task)\<rparr>]"
    and b: "\<And>x. balance_of w2 x = balance_of ?w1 x + (if x = ra then Budget task else 0)"
    and o: "tasks w2 = tasks ?w1" "agents w2 = agents ?w1" "http_posts w2 = http_posts ?w1"
      "monitors w2 = monitors ?w1"
    by blast
  have "refundAndFail w task = (w2, ?t1, None)"
    using r s by (simp add: refundAndFail_def Let_def RefundFailed_def)
  then show ?thesis using l b o by simp
qed

lemmas dispatch_eval = DispatchTask_def failNoWorker_def refundAndFail_def
  dispatchToWorker.simps dispatchWithFallback.simps FindBestWorker_def FindFallbacks_def
  FindAvailableWorkers_def scoreAndSort_def routingPreference_def insertionSort_def
  GetDeadline_def second_def TaskRepo_Update_def TaskRepo_GetByID_def resolveAccountID_def
  AgentRepo_GetByID_def RefundFailed_def SettleError_def GetByIDForUpdate_def AddCredits_def
  CreateTx_def balance_of_def go_int_def maxRetries_def uuid_Nil_def defaultPriceByCapability_def
  AgentRoleWorker_def AgentRoleBoth_def AgentAvailabilityOnline_def
  RoutingFastest_def RoutingCheapest_def RoutingAuto_def
  TaskStatusMatching_def TaskStatusDispatched_def TaskStatusInProgress_def TaskStatusFailed_def
  TaskOutputStatusError_def CreditEntryRefund_def Let_def

lemma ex_dispatch_500:
  "http_posts (fst (DispatchTask (env_status 500) example_world task200))
     = [(''http://w31'', 200), (''http://w21'', 200), (''http://w31'', 200)]"
  by (simp add: dispatch_eval env_status_def example_defs)

lemma env_status_sorts:
  "set (sort_Slice (env_status c) lt cs) \<subseteq> set cs" "set (auto_order (env_status c) cs) \<subseteq> set cs"
  by (simp_all add: env_status_def insertionSort_set)

lemma ex_deadline: "GetDeadline (CapabilityRequired task200) (InputPayload task200) = Inr (15 * second)"
  by (simp add: GetDeadline_def task200_def)

subsection \<open>The worker's response\<close>

text \<open>
  What \<open>dispatchToWorker\<close> does with the outcome of the request. Once the deadline is
  known and the request can be built, the task is recorded as dispatched and the request is
  sent. A response with status 200 advances the task to \<open>in_progress\<close> and starts a deadline
  watcher for the recorded deadline; every other outcome, a transport error or a response
  with any other status, hands the dispatched task to the fallback path.
\<close>

lemma dispatchToWorker_response:
  fixes e :: env and w :: world and task :: Task and worker :: Agent and dur :: int
  assumes "GetDeadline (CapabilityRequired task) (InputPayload task) = Inr dur"
    and "NewRequest_ok e (EndpointURL worker)"
  defines "deadline \<equiv> time_Now e (length (http_posts w)) + dur"
  defines "task1 \<equiv> task\<lparr>WorkerAgentID := Some (agID worker), Status := TaskStatusDispatched,
                         Deadline := Some deadline\<rparr>"
  defines "w2 \<equiv> (TaskRepo_Update w task1)
                  \<lparr>http_posts := http_posts w @ [(EndpointURL worker, tID task)]\<rparr>"
  shows "(HTTPClient_Do e (length (http_posts w)) (EndpointURL worker) = Response 200 \<longrightarrow>
            dispatchToWorker e w task worker
            = ((TaskRepo_Update w2 (task1\<lparr>Status := TaskStatusInProgress\<rparr>))
                 \<lparr>monitors := monitors w @ [(tID task, agID worker, deadline)]\<rparr>,
               task1\<lparr>Status := TaskStatusInProgress\<rparr>, None))
     \<and> (HTTPClient_Do e (length (http_posts w)) (EndpointURL worker) \<noteq> Response 200 \<longrightarrow>
            dispatchToWorker e w task worker = dispatchWithFallback e w2 task1 (agID worker))"
  using assms(1,2) unfolding deadline_def task1_def w2_def
  by (simp add: dispatchToWorker.simps [of e w task worker] Let_def split: http_result.split)

lemma dispatchToWorker_response_examples:
  "Status (fst (snd (dispatchToWorker (env_status 200) example_world task200 worker21))) = ''in_progress''
   \<and> monitors (fst (dispatchToWorker (env_status 200) example_world task200 worker21))
       = [(200, 21, 15000000000)]
   \<and> dispatchToWorker (env_status 500) example_world task200 worker21
       = dispatchWithFallback (env_status 500)
           ((TaskRepo_Update example_world
               (task200\<lparr>WorkerAgentID := Some 21, Status := ''dispatched'',
                          Deadline := Some 15000000000\<rparr>))
              \<lparr>http_posts := [(''http://w21'', 200)]\<rparr>)
           (task200\<lparr>WorkerAgentID := Some 21, Status := ''dispatched'',
                      Deadline := Some 15000000000\<rparr>)
           21
   \<and> dispatchToWorker env_unreachable example_world task200 worker21
       = dispatchWithFallback env_unreachable
           ((TaskRepo_Update example_world
               (task200\<lparr>WorkerAgentID := Some 21, Status := ''dispatched'',
                          Deadline := Some 15000000000\<rparr>))
              \<lparr>http_posts := [(''http://w21'', 200)]\<rparr>)
           (task200\<lparr>WorkerAgentID := Some 21, Status := ''dispatched'',
                      Deadline := Some 15000000000\<rparr>)
           21"
proof -
  have u: "NewRequest_ok (env_status c) (EndpointURL worker21)" for c by (simp add: env_status_def)
  have u': "NewRequest_ok env_unreachable (EndpointURL worker21)" by (simp add: env_unreachable_def)
  have f: "agID worker21 = 21" "EndpointURL worker21 = ''http://w21''" "tID task200 = 200"
    "http_posts example_world = []" "monitors example_world = []"
    by (simp_all add: example_defs)
  have d: "HTTPClient_Do (env_status c) k url = Response c" "time_Now (env_status c) k = 0" for c k url
    by (simp_all add: env_status_def)
  have d': "HTTPClient_Do env_unreachable k url = TransportError" "time_Now env_unreachable k = 0"
    for k url
    by (simp_all add: env_unreachable_def)
  from dispatchToWorker_response [OF ex_deadline u, of 200 example_world]
    dispatchToWorker_response [OF ex_deadline u, of 500 example_world]
    dispatchToWorker_response [OF ex_deadline u', of example_world]
  show ?thesis
    by (simp add: f d d' second_def TaskStatusInProgress_def TaskStatusDispatched_def)
qed

text \<open>
  Claim C7 (any 2xx response advances the task), evaluated where the code departs from it.
  The dispatcher compares the status with 200 alone. Agent 21 answers the dispatch of task
  200 with 202 (Accepted), as does every other endpoint. The answer is treated as a failed
  dispatch: no deadline watcher is started, the task is sent to agent 31 and to agent 21
  again, and after the third request it is marked failed and its budget of 10 is refunded
  to the requester account.
\<close>

theorem dispatchToWorker_rejects_202:
  "HTTPClient_Do (env_status 202) 0 (EndpointURL worker21) = Response 202
   \<and> snd (snd (dispatchToWorker (env_status 202) example_world task200 worker21)) = None
   \<and> Status (fst (snd (dispatchToWorker (env_status 202) example_world task200 worker21))) = ''failed''
   \<and> monitors (fst (dispatchToWorker (env_status 202) example_world task200 worker21)) = []
   \<and> http_posts (fst (dispatchToWorker (env_status 202) example_world task200 worker21))
       = [(''http://w21'', 200), (''http://w31'', 200), (''http://w21'', 200)]
   \<and> balance_of (fst (dispatchToWorker (env_status 202) example_world task200 worker21)) 10 = 890 + 10"
  by (simp add: dispatch_eval env_status_def example_defs)

lemma FindFallbacks_TaskRepo_Update [simp]:
  "FindFallbacks e (TaskRepo_Update w t) task x = FindFallbacks e w task x"
  by (simp add: FindFallbacks_def)

lemma go_int_small: "0 \<le> r \<Longrightarrow> r \<le> 2 \<Longrightarrow> go_int (r + 1) = r + 1"
  by (simp add: go_int_def)

lemma dispatch_result:
  shows "\<lbrakk>\<forall>lt cs. set (sort_Slice e lt cs) \<subseteq> set cs; \<forall>cs. set (auto_order e cs) \<subseteq> set cs;
     \<forall>a\<in>set (agents w). NewRequest_ok e (EndpointURL a);
     GetDeadline (CapabilityRequired task) (InputPayload task) = Inr dur;
     resolveAccountID w (RequesterAgentID task) = Inr ra;
     GetByIDForUpdate w ra = Inr racc;
     0 < Budget task; 0 \<le> RetryCount task; RetryCount task \<le> 2; worker \<in> set (agents w)\<rbrakk> \<Longrightarrow>
    (case dispatchToWorker e w task worker of (w', task', err) \<Rightarrow>
       err = None
     \<and> int (length (http_posts w')) + RetryCount task \<le> int (length (http_posts w)) + 3
     \<and> tID task' = tID task
     \<and> (Status task' = TaskStatusInProgress \<and> accounts w' = accounts w
            \<and> credit_ledger w' = credit_ledger w
          \<or> Status task' = TaskStatusFailed
            \<and> credit_ledger w' = credit_ledger w @
                 [\<lparr>leAccountID = ra, leTaskID = Some (tID task), EntryType = CreditEntryRefund,
                   Amount = Budget task, BalanceAfter = Some (CreditBalance racc + Budget task)\<rparr>]
            \<and> (\<forall>x. balance_of w' x = balance_of w x + (if x = ra then Budget task else 0)))
     \<and> ((\<forall>k u. HTTPClient_Do e k u \<noteq> Response 200) \<longrightarrow> Status task' = TaskStatusFailed)
     \<and> (\<forall>t0. TaskRepo_GetByID w (tID task) = Inr t0 \<longrightarrow>
            TaskRepo_GetByID w' (tID task) = Inr (task'\<lparr>RoutingPreference := []\<rparr>)))"
    and "\<lbrakk>\<forall>lt cs. set (sort_Slice e lt cs) \<subseteq> set cs; \<forall>cs. set (auto_order e cs) \<subseteq> set cs;
     \<forall>a\<in>set (agents w). NewRequest_ok e (EndpointURL a);
     GetDeadline (CapabilityRequired task) (InputPayload task) = Inr dur;
     resolveAccountID w (RequesterAgentID task) = Inr ra;
     GetByIDForUpdate w ra = Inr racc;
     0 < Budget task; 0 \<le> RetryCount task; RetryCount task \<le> 2\<rbrakk> \<Longrightarrow>
    (case dispatchWithFallback e w task failedAgentID of (w', task', err) \<Rightarrow>
       err = None
     \<and> int (length (http_posts w')) + RetryCount task \<le> int (length (http_posts w)) + 2
     \<and> tID task' = tID task
     \<and> (Status task' = TaskStatusInProgress \<and> accounts w' = accounts w
            \<and> credit_ledger w' = credit_ledger w
          \<or> Status task' = TaskStatusFailed
            \<and> credit_ledger w' = credit_ledger w @
                 [\<lparr>leAccountID = ra, leTaskID = Some (tID task), EntryType = CreditEntryRefund,
                   Amount = Budget task, BalanceAfter = Some (CreditBalance racc + Budget task)\<rparr>]
            \<and> (\<forall>x. balance_of w' x = balance_of w x + (if x = ra then Budget task else 0)))
     \<and> ((\<forall>k u. HTTPClient_Do e k u \<noteq> Response 200) \<longrightarrow> Status task' = TaskStatusFailed)
     \<and> (\<forall>t0. TaskRepo_GetByID w (tID task) = Inr t0 \<longrightarrow>
            TaskRepo_GetByID w' (tID task) = Inr (task'\<lparr>RoutingPreference := []\<rparr>)))"
proof (induction e w task worker and e w task failedAgentID
       rule: dispatchToWorker_dispatchWithFallback.induct)
  case (1 e w task worker)
  define deadline where "deadline = time_Now e (length (http_posts w)) + dur"
  define task1 where "task1 = task\<lparr>WorkerAgentID := Some (agID worker),
              Status := TaskStatusDispatched, Deadline := Some deadline\<rparr>"
  define w1 where "w1 = TaskRepo_Update w task1"
  define w2 where "w2 = w1\<lparr>http_posts := http_posts w1 @ [(EndpointURL worker, tID task1)]\<rparr>"
  from "1.prems" have ok: "NewRequest_ok e (EndpointURL worker)" by blast
  have row: "TaskRepo_GetByID w2 (tID task) = Inr (task1\<lparr>RoutingPreference := []\<rparr>)"
    if "TaskRepo_GetByID w (tID task) = Inr t0" for t0
    using TaskRepo_GetByID_Update [of w task1 t0] that by (simp add: w2_def w1_def task1_def)
  have pre2: "\<forall>a\<in>set (agents w2). NewRequest_ok e (EndpointURL a)"
    "GetDeadline (CapabilityRequired task1) (InputPayload task1) = Inr dur"
    "resolveAccountID w2 (RequesterAgentID task1) = Inr ra"
    "GetByIDForUpdate w2 ra = Inr racc"
    "0 < Budget task1" "0 \<le> RetryCount task1" "RetryCount task1 \<le> 2"
    using "1.prems" by (simp_all add: w2_def w1_def task1_def)
  have fallback: ?case
    if call: "dispatchToWorker e w task worker = dispatchWithFallback e w2 task1 (agID worker)"
      and ih: "(case dispatchWithFallback e w2 task1 (agID worker) of (w', task', err) \<Rightarrow>
       err = None
     \<and> int (length (http_posts w')) + RetryCount task1 \<le> int (length (http_posts w2)) + 2
     \<and> tID task' = tID task1
     \<and> (Status task' = TaskStatusInProgress \<and> accounts w' = accounts w2
            \<and> credit_ledger w' = credit_ledger w2
          \<or> Status task' = TaskStatusFailed
            \<and> credit_ledger w' = credit_ledger w2 @
                 [\<lparr>leAccountID = ra, leTaskID = Some (tID task1), EntryType = CreditEntryRefund,
                   Amount = Budget task1, BalanceAfter = Some (CreditBalance racc + Budget task1)\<rparr>]
            \<and> (\<forall>x. balance_of w' x = balance_of w2 x + (if x = ra then Budget task1 else 0)))
     \<and> ((\<forall>k u. HTTPClient_Do e k u \<noteq> Response 200) \<longrightarrow> Status task' = TaskStatusFailed)
     \<and> (\<forall>t0. TaskRepo_GetByID w2 (tID task1) = Inr t0 \<longrightarrow>
            TaskRepo_GetByID w' (tID task1) = Inr (task'\<lparr>RoutingPreference := []\<rparr>)))"
  proof -
    obtain w' task' err where r: "dispatchWithFallback e w2 task1 (agID worker) = (w', task', err)"
      by (cases "dispatchWithFallback e w2 task1 (agID worker)") auto
    have f: "http_posts w2 = http_posts w @ [(EndpointURL worker, tID task1)]"
      "accounts w2 = accounts w" "credit_ledger w2 = credit_ledger w"
      "tID task1 = tID task" "Budget task1 = Budget task" "RetryCount task1 = RetryCount task"
      by (simp_all add: w2_def w1_def task1_def)
    have b: "balance_of w2 x = balance_of w x" for x by (simp add: w2_def w1_def)
    from ih row show ?thesis unfolding call r f b by auto
  qed
  show ?case
  proof (cases "HTTPClient_Do e (length (http_posts w1)) (EndpointURL worker)")
    case TransportError
    have call: "dispatchToWorker e w task worker = dispatchWithFallback e w2 task1 (agID worker)"
      using "1.prems"(4) ok TransportError
      by (simp add: dispatchToWorker.simps [of e w task worker] Let_def deadline_def
          task1_def w1_def w2_def)
    show ?thesis
      by (rule fallback [OF call])
         (rule "1.IH"(1) [OF "1.prems"(4) deadline_def task1_def w1_def _ w2_def TransportError
            "1.prems"(1,2) pre2], simp add: ok)
  next
    case (Response c)
    show ?thesis
    proof (cases "c = 200")
      case False
      have call: "dispatchToWorker e w task worker = dispatchWithFallback e w2 task1 (agID worker)"
        using "1.prems"(4) ok Response False
        by (simp add: dispatchToWorker.simps [of e w task worker] Let_def deadline_def
            task1_def w1_def w2_def)
      show ?thesis
        by (rule fallback [OF call])
           (rule "1.IH"(2) [OF "1.prems"(4) deadline_def task1_def w1_def _ w2_def Response False
              "1.prems"(1,2) pre2], simp add: ok)
    next
      case True
      have call: "dispatchToWorker e w task worker
          = ((TaskRepo_Update w2 (task1\<lparr>Status := TaskStatusInProgress\<rparr>))
               \<lparr>monitors := monitors (TaskRepo_Update w2 (task1\<lparr>Status := TaskStatusInProgress\<rparr>))
                    @ [(tID task1, agID worker, deadline)]\<rparr>,
             task1\<lparr>Status := TaskStatusInProgress\<rparr>, None)"
        using "1.prems"(4) ok Response True
        by (simp add: dispatchToWorker.simps [of e w task worker] Let_def deadline_def
            task1_def w1_def w2_def)
      have row2: "TaskRepo_GetByID (TaskRepo_Update w2 (task1\<lparr>Status := TaskStatusInProgress\<rparr>)) (tID task)
          = Inr (task1\<lparr>Status := TaskStatusInProgress, RoutingPreference := []\<rparr>)"
        if "TaskRepo_GetByID w (tID task) = Inr t0" for t0
        using TaskRepo_GetByID_Update [of w2 "task1\<lparr>Status := TaskStatusInProgress\<rparr>"] row [OF that]
        by (simp add: task1_def)
      have "\<not> (\<forall>k u. HTTPClient_Do e k u \<noteq> Response 200)"
        using Response True by auto
      then show ?thesis unfolding call using "1.prems"(9) row2
        by (auto simp: w2_def w1_def task1_def)
    qed
  qed
next
  case (2 e w task failedAgentID)
  define task1 where "task1 = task\<lparr>RetryCount := go_int (RetryCount task + 1)\<rparr>"
  define task2 where "task2 = task1\<lparr>Status := TaskStatusMatching\<rparr>"
  define w1 where "w1 = TaskRepo_Update w task2"
  have r1: "RetryCount task1 = RetryCount task + 1"
    using "2.prems" by (simp add: task1_def go_int_small)
  show ?case
  proof (cases "maxRetries < RetryCount task1")
    case True
    have call: "dispatchWithFallback e w task failedAgentID = refundAndFail w task1"
      using True
      by (simp add: dispatchWithFallback.simps [of e w task failedAgentID] Let_def task1_def)
    from refundAndFail_result [of w task1 ra racc] "2.prems" obtain w' where
      r: "refundAndFail w task1
            = (w', task1\<lparr>Status := TaskStatusFailed, OutputStatus := TaskOutputStatusError\<rparr>, None)"
      and l: "credit_ledger w' = credit_ledger w @
           [\<lparr>leAccountID = ra, leTaskID = Some (tID task), EntryType = CreditEntryRefund,
             Amount = Budget task, BalanceAfter = Some (CreditBalance racc + Budget task)\<rparr>]"
      and b: "\<And>x. balance_of w' x = balance_of w x + (if x = ra then Budget task else 0)"
      and t: "tasks w' = tasks (TaskRepo_Update w
                (task1\<lparr>Status := TaskStatusFailed, OutputStatus := TaskOutputStatusError\<rparr>))"
      and p: "http_posts w' = http_posts w"
      by (auto simp: task1_def)
    have row: "TaskRepo_GetByID w' (tID task)
        = Inr (task1\<lparr>Status := TaskStatusFailed, OutputStatus := TaskOutputStatusError,
                 RoutingPreference := []\<rparr>)"
      if "TaskRepo_GetByID w (tID task) = Inr t0" for t0
      using TaskRepo_GetByID_Update
        [of w "task1\<lparr>Status := TaskStatusFailed, OutputStatus := TaskOutputStatusError\<rparr>" t0] that
        TaskRepo_GetByID_tasks [OF t, of "tID task"]
      by (simp add: task1_def)
    show ?thesis unfolding call r using l b p row "2.prems"(9)
      by (auto simp: task1_def)
  next
    case False
    note notmax = this
    have pre1: "\<forall>a\<in>set (agents w1). NewRequest_ok e (EndpointURL a)"
      "GetDeadline (CapabilityRequired task2) (InputPayload task2) = Inr dur"
      "resolveAccountID w1 (RequesterAgentID task2) = Inr ra"
      "GetByIDForUpdate w1 ra = Inr racc"
      "0 < Budget task2" "0 \<le> RetryCount task2" "RetryCount task2 \<le> 2"
      using "2.prems" notmax r1 by (simp_all add: w1_def task2_def task1_def maxRetries_def)
    have rowex: "TaskRepo_GetByID w1 (tID task) = Inr (task2\<lparr>RoutingPreference := []\<rparr>)"
      if "TaskRepo_GetByID w (tID task) = Inr t0" for t0
      using TaskRepo_GetByID_Update [of w task2 t0] that by (simp add: w1_def task2_def task1_def)
    show ?thesis
    proof (cases "FindFallbacks e w1 task2 failedAgentID")
      case Nil
      have call: "dispatchWithFallback e w task failedAgentID = refundAndFail w1 task2"
        using notmax Nil
        by (simp add: dispatchWithFallback.simps [of e w task failedAgentID] Let_def
            task1_def task2_def w1_def)
      from refundAndFail_result [of w1 task2 ra racc] pre1 obtain w' where
        r: "refundAndFail w1 task2
              = (w', task2\<lparr>Status := TaskStatusFailed, OutputStatus := TaskOutputStatusError\<rparr>, None)"
        and l: "credit_ledger w' = credit_ledger w @
             [\<lparr>leAccountID = ra, leTaskID = Some (tID task), EntryType = CreditEntryRefund,
               Amount = Budget task, BalanceAfter = Some (CreditBalance racc + Budget task)\<rparr>]"
        and b: "\<And>x. balance_of w' x = balance_of w x + (if x = ra then Budget task else 0)"
        and t: "tasks w' = tasks (TaskRepo_Update w1
                  (task2\<lparr>Status := TaskStatusFailed, OutputStatus := TaskOutputStatusError\<rparr>))"
        and p: "http_posts w' = http_posts w"
        by (auto simp: task2_def task1_def w1_def)
      have row: "TaskRepo_GetByID w' (tID task)
          = Inr (task2\<lparr>Status := TaskStatusFailed, OutputStatus := TaskOutputStatusError,
                   RoutingPreference := []\<rparr>)"
        if "TaskRepo_GetByID w (tID task) = Inr t0" for t0
        using TaskRepo_GetByID_Update
          [of w1 "task2\<lparr>Status := TaskStatusFailed, OutputStatus := TaskOutputStatusError\<rparr>"]
          rowex [OF that] TaskRepo_GetByID_tasks [OF t, of "tID task"]
        by (simp add: task2_def task1_def)
      show ?thesis unfolding call r using l b p row "2.prems"(9)
        by (auto simp: task2_def task1_def)
    next
      case (Cons fb fbs)
      have call: "dispatchWithFallback e w task failedAgentID = dispatchToWorker e w1 task2 fb"
        using notmax Cons
        by (simp add: dispatchWithFallback.simps [of e w task failedAgentID] Let_def
            task1_def task2_def w1_def)
      have "fb \<in> set (FindFallbacks e w1 task2 failedAgentID)" using Cons by simp
      then have fbin: "fb \<in> set (agents w1)"
        using FindFallbacks_agents "2.prems"(1,2) by blast
      note ih = "2.IH" [OF task1_def notmax task2_def w1_def Cons "2.prems"(1,2) pre1 fbin]
      obtain w' task' err where r: "dispatchToWorker e w1 task2 fb = (w', task', err)"
        by (cases "dispatchToWorker e w1 task2 fb") auto
      have f: "http_posts w1 = http_posts w" "accounts w1 = accounts w"
        "credit_ledger w1 = credit_ledger w" "tID task2 = tID task" "Budget task2 = Budget task"
        "RetryCount task2 = RetryCount task + 1"
        using r1 by (simp_all add: w1_def task2_def task1_def)
      have b: "balance_of w1 x = balance_of w x" for x by (simp add: w1_def)
      from ih rowex show ?thesis unfolding call r f b by auto
    qed
  qed
qed


subsection \<open>The bound on dispatch attempts\<close>

text \<open>
  A freshly admitted task (retry count 0, positive budget, a capability with a deadline, a
  requester whose account exists) is dispatched in a store in which the endpoint URL of
  every agent can be made into a request. Whatever the workers answer,
  \<open>DispatchTask\<close> returns without error after at most 3 requests to worker endpoints, and
  the task is then either in progress, with accounts and ledger untouched, or failed, with
  one \<open>refund\<close> entry that returns the full budget to the requester account. If no
  endpoint ever answers 200, the task ends failed. The stored task row is the task as the
  dispatcher left it. (Termination of the retry recursion is part of the definition of
  \<open>dispatchToWorker\<close> and \<open>dispatchWithFallback\<close>.)
\<close>

lemma dispatch_fallback_bound:
  assumes "\<And>lt cs. set (sort_Slice e lt cs) \<subseteq> set cs" and "\<And>cs. set (auto_order e cs) \<subseteq> set cs"
    and "\<And>a. a \<in> set (agents w) \<Longrightarrow> NewRequest_ok e (EndpointURL a)"
    and "GetDeadline (CapabilityRequired task) (InputPayload task) = Inr dur"
    and "resolveAccountID w (RequesterAgentID task) = Inr ra"
    and "GetByIDForUpdate w ra = Inr racc"
    and "0 < Budget task" and "RetryCount task = 0"
    and "DispatchTask e w task = (w', task', err)"
  shows "err = None
     \<and> length (http_posts w') \<le> length (http_posts w) + 3
     \<and> (Status task' = TaskStatusInProgress \<and> accounts w' = accounts w
            \<and> credit_ledger w' = credit_ledger w
          \<or> Status task' = TaskStatusFailed
            \<and> credit_ledger w' = credit_ledger w @
                 [\<lparr>leAccountID = ra, leTaskID = Some (tID task), EntryType = CreditEntryRefund,
                   Amount = Budget task, BalanceAfter = Some (CreditBalance racc + Budget task)\<rparr>]
            \<and> (\<forall>x. balance_of w' x = balance_of w x + (if x = ra then Budget task else 0)))
     \<and> ((\<forall>k u. HTTPClient_Do e k u \<noteq> Response 200) \<longrightarrow> Status task' = TaskStatusFailed)
     \<and> (\<forall>t0. TaskRepo_GetByID w (tID task) = Inr t0 \<longrightarrow>
            TaskRepo_GetByID w' (tID task) = Inr (task'\<lparr>RoutingPreference := []\<rparr>))"
proof (cases "FindBestWorker e w task")
  case None
  then have call: "DispatchTask e w task = refundAndFail w task"
    by (simp add: DispatchTask_def failNoWorker_def)
  from refundAndFail_result [OF assms(5,6,7)] obtain w2 where
    r: "refundAndFail w task
          = (w2, task\<lparr>Status := TaskStatusFailed, OutputStatus := TaskOutputStatusError\<rparr>, None)"
    and l: "credit_ledger w2 = credit_ledger w @
           [\<lparr>leAccountID = ra, leTaskID = Some (tID task), EntryType = CreditEntryRefund,
             Amount = Budget task, BalanceAfter = Some (CreditBalance racc + Budget task)\<rparr>]"
    and b: "\<And>x. balance_of w2 x = balance_of w x + (if x = ra then Budget task else 0)"
    and t: "tasks w2 = tasks (TaskRepo_Update w
              (task\<lparr>Status := TaskStatusFailed, OutputStatus := TaskOutputStatusError\<rparr>))"
    and p: "http_posts w2 = http_posts w"
    by blast
  have row: "TaskRepo_GetByID w2 (tID task)
      = Inr (task\<lparr>Status := TaskStatusFailed, OutputStatus := TaskOutputStatusError,
               RoutingPreference := []\<rparr>)"
    if "TaskRepo_GetByID w (tID task) = Inr t0" for t0
    using TaskRepo_GetByID_Update
      [of w "task\<lparr>Status := TaskStatusFailed, OutputStatus := TaskOutputStatusError\<rparr>" t0] that
      TaskRepo_GetByID_tasks [OF t, of "tID task"]
    by simp
  from assms(9) have "w' = w2" "task' = task\<lparr>Status := TaskStatusFailed, OutputStatus := TaskOutputStatusError\<rparr>"
    "err = None"
    unfolding call r by simp_all
  then show ?thesis using l b p row by auto
next
  case (Some worker)
  then have call: "DispatchTask e w task = dispatchToWorker e w task worker"
    by (simp add: DispatchTask_def)
  have e1: "\<forall>lt cs. set (sort_Slice e lt cs) \<subseteq> set cs" and e2: "\<forall>cs. set (auto_order e cs) \<subseteq> set cs"
    using assms(1,2) by blast+
  have u: "\<forall>a\<in>set (agents w). NewRequest_ok e (EndpointURL a)" using assms(3) by blast
  have win: "worker \<in> set (agents w)" using FindBestWorker_agents [OF e1 e2 Some] .
  have r0: "0 \<le> RetryCount task" "RetryCount task \<le> 2" using assms(8) by simp_all
  from dispatch_result(1) [OF e1 e2 u assms(4,5,6,7) r0 win] assms(8,9)
  show ?thesis unfolding call by auto
qed

lemma dispatch_fallback_bound_example:
  "snd (snd (DispatchTask (env_status 500) example_world task200)) = None
   \<and> length (http_posts (fst (DispatchTask (env_status 500) example_world task200))) = 3
   \<and> Status (fst (snd (DispatchTask (env_status 500) example_world task200))) = ''failed''
   \<and> balance_of (fst (DispatchTask (env_status 500) example_world task200)) 10 = 890 + 10"
proof -
  let ?X = "DispatchTask (env_status 500) example_world task200"
  have x: "?X = (fst ?X, fst (snd ?X), snd (snd ?X))" by simp
  have u: "NewRequest_ok (env_status 500) (EndpointURL a)" for a by (simp add: env_status_def)
  have r: "resolveAccountID example_world (RequesterAgentID task200) = Inr 10"
    by (simp add: ex_resolve task200_def)
  have g: "GetByIDForUpdate example_world 10 = Inr (acct 10 890)"
    by (simp add: GetByIDForUpdate_def example_defs)
  have b: "0 < Budget task200" "RetryCount task200 = 0" by (simp_all add: task200_def)
  have n: "\<forall>k u. HTTPClient_Do (env_status 500) k u \<noteq> Response 200" by (simp add: env_status_def)
  have bal: "balance_of example_world 10 = 890" by (simp add: balance_of_def g acct_def)
  note t = dispatch_fallback_bound [OF env_status_sorts u ex_deadline r g b x]
  from t have e: "snd (snd ?X) = None" by simp
  from t n have f: "Status (fst (snd ?X)) = TaskStatusFailed" by blast
  with t status_names_distinct(5) have "\<forall>x. balance_of (fst ?X) x
      = balance_of example_world x + (if x = 10 then Budget task200 else 0)"
    by auto
  then have "balance_of (fst ?X) 10 = 890 + 10" by (simp add: bal task200_def)
  with e f show ?thesis by (simp add: ex_dispatch_500 TaskStatusFailed_def)
qed

text \<open>
  Claim C6 (fallback bound), evaluated where the code departs from it. The bound above
  needs every endpoint URL to be accepted by \<open>http.NewRequestWithContext\<close>. Agent 31,
  the cheapest candidate for task 200, has an endpoint URL without a protocol scheme. The
  dispatcher records the task as dispatched to agent 31, fails to build the request and
  returns that error: no request is sent, agent 21 (which would answer 200) is never
  tried, no deadline watcher is started, nothing is written to the ledger and the 10
  credits locked for the task are not returned to the requester. A deadline watcher for
  the task, were one to run, leaves the store as it is, because the task is not in
  progress. The task stays \<open>dispatched\<close> and never reaches \<open>failed\<close>.
\<close>

theorem DispatchTask_unparsable_endpoint:
  "FindBestWorker (env_parse 200) unparsable_world (task200\<lparr>RoutingPreference := ''cheapest''\<rparr>)
     = Some (worker31\<lparr>EndpointURL := ''://w31''\<rparr>)
   \<and> snd (snd (DispatchTask (env_parse 200) unparsable_world
                 (task200\<lparr>RoutingPreference := ''cheapest''\<rparr>))) = Some ErrCreateRequest
   \<and> map_sum id (\<lambda>t. (Status t, WorkerAgentID t, RetryCount t))
        (TaskRepo_GetByID (fst (DispatchTask (env_parse 200) unparsable_world
                 (task200\<lparr>RoutingPreference := ''cheapest''\<rparr>))) 200)
       = Inr (''dispatched'', Some 31, 0)
   \<and> http_posts (fst (DispatchTask (env_parse 200) unparsable_world
                 (task200\<lparr>RoutingPreference := ''cheapest''\<rparr>))) = []
   \<and> monitors (fst (DispatchTask (env_parse 200) unparsable_world
                 (task200\<lparr>RoutingPreference := ''cheapest''\<rparr>))) = []
   \<and> credit_ledger (fst (DispatchTask (env_parse 200) unparsable_world
                 (task200\<lparr>RoutingPreference := ''cheapest''\<rparr>))) = credit_ledger example_world
   \<and> balance_of (fst (DispatchTask (env_parse 200) unparsable_world
                 (task200\<lparr>RoutingPreference := ''cheapest''\<rparr>))) 10 = 890
   \<and> monitorDeadline (env_parse 200)
        (fst (DispatchTask (env_parse 200) unparsable_world
                 (task200\<lparr>RoutingPreference := ''cheapest''\<rparr>))) 200 31
       = fst (DispatchTask (env_parse 200) unparsable_world
                 (task200\<lparr>RoutingPreference := ''cheapest''\<rparr>))"
  by (simp add: dispatch_eval monitorDeadline_def env_parse_def env_status_def unparsable_world_def
      example_defs)

subsection \<open>The deadline watcher\<close>

text \<open>
  A watcher that fires on a task still in progress enters the same fallback path with the
  retry count the store holds, so the posts it causes and the retries already counted stay
  within the same budget of three attempts. On a task that has left \<open>in_progress\<close> it
  does nothing.
\<close>

lemma monitorDeadline_bound:
  assumes "\<And>lt cs. set (sort_Slice e lt cs) \<subseteq> set cs"
    and "\<And>cs. set (auto_order e cs) \<subseteq> set cs"
    and "\<And>a. a \<in> set (agents w) \<Longrightarrow> NewRequest_ok e (EndpointURL a)"
    and "TaskRepo_GetByID w taskID = Inr task"
    and "GetDeadline (CapabilityRequired task) (InputPayload task) = Inr dur"
    and "resolveAccountID w (RequesterAgentID task) = Inr ra"
    and "GetByIDForUpdate w ra = Inr racc"
    and "0 < Budget task" and "0 \<le> RetryCount task" and "RetryCount task \<le> 2"
  shows "int (length (http_posts (monitorDeadline e w taskID workerAgentID))) + RetryCount task
           \<le> int (length (http_posts w)) + 2"
proof (cases "Status task \<noteq> TaskStatusInProgress")
  case True
  then show ?thesis using assms(4,10) by (simp add: monitorDeadline_def)
next
  case False
  define task1 where
    "task1 = task\<lparr>Status := TaskStatusFailed, OutputStatus := TaskOutputStatusError\<rparr>"
  define w1 where "w1 = TaskRepo_Update w task1"
  have call: "monitorDeadline e w taskID workerAgentID
                = fst (dispatchWithFallback e w1 task1 workerAgentID)"
    using False assms(4) by (simp add: monitorDeadline_def Let_def task1_def w1_def)
  have e1: "\<forall>lt cs. set (sort_Slice e lt cs) \<subseteq> set cs"
    and e2: "\<forall>cs. set (auto_order e cs) \<subseteq> set cs"
    using assms(1,2) by blast+
  have pre: "\<forall>a\<in>set (agents w1). NewRequest_ok e (EndpointURL a)"
    "GetDeadline (CapabilityRequired task1) (InputPayload task1) = Inr dur"
    "resolveAccountID w1 (RequesterAgentID task1) = Inr ra"
    "GetByIDForUpdate w1 ra = Inr racc"
    "0 < Budget task1" "0 \<le> RetryCount task1" "RetryCount task1 \<le> 2"
    using assms(3,5-10) by (simp_all add: w1_def task1_def)
  obtain w' task' err where r: "dispatchWithFallback e w1 task1 workerAgentID = (w', task', err)"
    by (cases "dispatchWithFallback e w1 task1 workerAgentID") auto
  from dispatch_result(2) [OF e1 e2 pre, of workerAgentID]
  show ?thesis unfolding call r by (simp add: w1_def task1_def)
qed

end
